theory Spec2Isabelle
  imports Main "HOL-Library.Word"
begin

unbundle bit_operations_syntax

section \<open>The LSP client of geany-lsp: servers, capabilities, document synchronisation\<close>

text \<open>
  A shallow embedding of \<^verbatim>\<open>src/plugins/lsp/lsp-server.c\<close> and
  \<^verbatim>\<open>src/plugins/lsp/lsp-sync.c\<close>. C structs are records, pointers to
  \<^verbatim>\<open>LspServer\<close> are addresses into an explicit store, the global variables of the
  two files are the fields of one state record, and everything the code hands to the
  outside (process spawns, message boxes, JSON-RPC calls and notifications, signals) is
  appended to a log of effects. \<^verbatim>\<open>gint\<close> and \<^verbatim>\<open>guint\<close> are 32-bit words.
  Results that only the outside world decides (does the spawn succeed, does a request
  fail, what does the response hold) are arguments of the functions.
\<close>

subsection \<open>GVariant messages\<close>

text \<open>
  The values that jsonrpc-glib builds and parses. A JSON integer read from the wire is a
  64-bit \<^verbatim>\<open>x\<close>; \<^verbatim>\<open>JSONRPC_MESSAGE_PUT_INT32\<close> writes a 32-bit \<^verbatim>\<open>i\<close>.
\<close>

datatype gvariant =
    GNull
  | GBool bool
  | GInt32 "32 word"
  | GInt64 "64 word"
  | GString string
  | GArray "gvariant list"
  | GDict "(string \<times> gvariant) list"

text \<open>
  \<^verbatim>\<open>JSONRPC_MESSAGE_PARSE(node, k1, "{", k2, "{", ..., kn, GET(&val), "}", ...)\<close>
  of jsonrpc-glib (a library, not part of the repository): it descends through
  dictionaries along the keys and succeeds when the last key holds a value of the type
  the getter asks for; only then is \<^verbatim>\<open>val\<close> written.
\<close>

fun dict_lookup :: "gvariant \<Rightarrow> string \<Rightarrow> gvariant option" where
  "dict_lookup (GDict kvs) k = map_of kvs k"
| "dict_lookup _ k = None"

fun message_parse :: "gvariant \<Rightarrow> string list \<Rightarrow> gvariant option" where
  "message_parse node [] = Some node"
| "message_parse node (k # ks) =
     (case dict_lookup node k of None \<Rightarrow> None | Some v \<Rightarrow> message_parse v ks)"

definition parse_get_boolean :: "gvariant \<Rightarrow> string list \<Rightarrow> bool option" where
  "parse_get_boolean node ks =
     (case message_parse node ks of Some (GBool b) \<Rightarrow> Some b | _ \<Rightarrow> None)"

definition parse_get_int64 :: "gvariant \<Rightarrow> string list \<Rightarrow> 64 word option" where
  "parse_get_int64 node ks =
     (case message_parse node ks of Some (GInt64 n) \<Rightarrow> Some n | _ \<Rightarrow> None)"

definition parse_get_iter :: "gvariant \<Rightarrow> string list \<Rightarrow> gvariant list option" where
  "parse_get_iter node ks =
     (case message_parse node ks of Some (GArray vs) \<Rightarrow> Some vs | _ \<Rightarrow> None)"

text \<open>
  \<^verbatim>\<open>g_string_append(str, g_variant_get_string(val, NULL))\<close>: a value that is not a
  string yields no characters.
\<close>

fun variant_get_string :: "gvariant \<Rightarrow> string" where
  "variant_get_string (GString s) = s"
| "variant_get_string _ = []"

subsection \<open>Reading the capabilities of an initialize response\<close>

definition get_autocomplete_trigger_chars :: "gvariant \<Rightarrow> string" where
  "get_autocomplete_trigger_chars node =
     (case parse_get_iter node [''capabilities'', ''completionProvider'', ''triggerCharacters''] of
        None \<Rightarrow> []
      | Some vals \<Rightarrow> foldl (\<lambda>str val. str @ variant_get_string val) [] vals)"

definition supports_semantic_tokens :: "gvariant \<Rightarrow> bool" where
  "supports_semantic_tokens node =
     (case parse_get_boolean node
             [''capabilities'', ''semanticTokensProvider'', ''full'', ''delta''] of
        None \<Rightarrow> False
      | Some val \<Rightarrow> val)"

definition is_type_token :: "string \<Rightarrow> bool" where
  "is_type_token str \<longleftrightarrow>
     str = ''namespace'' \<or> str = ''type'' \<or> str = ''class'' \<or> str = ''enum'' \<or>
     str = ''interface'' \<or> str = ''struct'' \<or> str = ''decorator''"

fun semantic_token_loop :: "gvariant list \<Rightarrow> 64 word \<Rightarrow> 64 word \<Rightarrow> 64 word" where
  "semantic_token_loop [] msk idx = msk"
| "semantic_token_loop (val # vals) msk idx =
     semantic_token_loop vals
       (if is_type_token (variant_get_string val) then msk OR idx else msk)
       (push_bit 1 idx)"

definition get_semantic_token_mask :: "gvariant \<Rightarrow> 64 word" where
  "get_semantic_token_mask node =
     (case parse_get_iter node
             [''capabilities'', ''semanticTokensProvider'', ''legend'', ''tokenTypes''] of
        None \<Rightarrow> 0
      | Some vals \<Rightarrow> semantic_token_loop vals 0 1)"

definition get_signature_trigger_chars :: "gvariant \<Rightarrow> string" where
  "get_signature_trigger_chars node =
     (case parse_get_iter node [''capabilities'', ''signatureHelpProvider'', ''triggerCharacters''] of
        None \<Rightarrow> []
      | Some vals \<Rightarrow> foldl (\<lambda>str val. str @ variant_get_string val) [] vals)"

text \<open>
  \<^verbatim>\<open>use_incremental_sync\<close>: the nested \<^verbatim>\<open>change\<close> field is tried first, the
  plain number second; \<^verbatim>\<open>success && val == 2\<close>.
\<close>

definition use_incremental_sync :: "gvariant \<Rightarrow> bool" where
  "use_incremental_sync node =
     (case parse_get_int64 node [''capabilities'', ''textDocumentSync'', ''change''] of
        Some val \<Rightarrow> val = 2
      | None \<Rightarrow>
          (case parse_get_int64 node [''capabilities'', ''textDocumentSync''] of
             Some val \<Rightarrow> val = 2
           | None \<Rightarrow> False))"

text \<open>
  \<^verbatim>\<open>update_config(variant, &option, key)\<close>: \<^verbatim>\<open>val\<close> starts as FALSE and is
  overwritten only by a boolean found under \<^verbatim>\<open>capabilities.key\<close>; the option is
  cleared when \<^verbatim>\<open>val\<close> is FALSE and left alone otherwise. The result is the new
  value of the option.
\<close>

definition update_config :: "gvariant \<Rightarrow> bool \<Rightarrow> string \<Rightarrow> bool" where
  "update_config variant option key =
     (let val = (case parse_get_boolean variant [''capabilities'', key] of
                   None \<Rightarrow> False
                 | Some b \<Rightarrow> b)
      in if \<not> val then False else option)"

subsection \<open>Servers, documents and the global state\<close>

text \<open>
  The fields of \<^verbatim>\<open>LspServerConfig\<close> and \<^verbatim>\<open>LspServer\<close> that the two files read
  or write (the structs are declared in \<^verbatim>\<open>lsp-server.h\<close>; styles, window sizes and
  log settings play no part below and are left out). A server made by \<^verbatim>\<open>g_new0\<close>
  has every field zero.
\<close>

record LspServerConfig =
  cmd :: "string option"
  ref_lang :: "string option"
  use_outside_project_dir :: bool
  use_without_project :: bool
  autocomplete_enable :: bool
  signature_enable :: bool
  hover_enable :: bool
  goto_enable :: bool
  document_symbols_enable :: bool
  highlighting_enable :: bool
  semantic_tokens_enable :: bool

record LspServer =
  filetype :: nat
  process :: "nat option"
  config :: LspServerConfig
  startup_shutdown :: bool
  restarts :: "32 word"
  not_used :: bool
  referenced :: "nat option"
  autocomplete_trigger_chars :: "string option"
  signature_trigger_chars :: "string option"
  srv_use_incremental_sync :: bool
  supports_workspace_symbols :: bool
  semantic_token_mask :: "64 word"
  initialize_response :: "gvariant option"

text \<open>
  A \<^verbatim>\<open>GeanyDocument\<close> as the two files see it: its address, the id of its file
  type, \<^verbatim>\<open>real_path\<close> (NULL for a document that has no file), the changed flag,
  the text of its editor widget, and the results of \<^verbatim>\<open>lsp_utils_get_doc_uri\<close> and
  \<^verbatim>\<open>lsp_utils_get_lsp_lang_name\<close> for it.
\<close>

record GeanyDocument =
  doc_ptr :: nat
  file_type_id :: nat
  real_path :: "string option"
  changed :: bool
  sci_contents :: string
  doc_uri :: string
  lsp_lang_name :: string

record LspPosition =
  line :: "32 word"
  character :: "32 word"

text \<open>What the editor and the configuration files answer when the code asks.\<close>

record editor =
  documents :: "GeanyDocument list"
  current_doc :: "nat option"
  project_open :: bool
  lsp_disabled_for_project :: bool
  path_inside_project :: "string \<Rightarrow> bool"
  filetypes_lookup_by_name :: "string \<Rightarrow> nat option"
  filetype_config :: "nat \<Rightarrow> LspServerConfig"

datatype effect =
    Msgbox nat
  | Spawn nat bool
  | WaitAsync nat nat
  | Call nat string
  | Notify nat string "gvariant option"
  | SendSignal nat
  | ForceExit nat

text \<open>
  \<^item> \<open>Msgbox s\<close>: the error dialog "terminated more than 5 times, giving up" for server \<open>s\<close>;
  \<^item> \<open>Spawn s ok\<close>: \<^verbatim>\<open>g_subprocess_launcher_spawnv\<close> was called for \<open>s\<close>, and whether
    it returned a process;
  \<^item> \<open>WaitAsync p s\<close>: \<^verbatim>\<open>process_stopped\<close> was registered for process \<open>p\<close> with data \<open>s\<close>;
  \<^item> \<open>Call s m\<close>: \<^verbatim>\<open>lsp_client_call_startup_shutdown(s, m, ...)\<close>;
  \<^item> \<open>Notify s m params\<close>: \<^verbatim>\<open>lsp_client_notify\<close> or \<^verbatim>\<open>lsp_rpc_notify\<close>;
  \<^item> \<open>SendSignal p\<close>, \<open>ForceExit p\<close>: SIGTERM and \<^verbatim>\<open>g_subprocess_force_exit\<close>.
  Lines written to the status window are not recorded.
\<close>

text \<open>
  The state: the store of servers with the next free address and the next process
  handle, the addresses that \<^verbatim>\<open>free_server\<close> released, the four global variables
  of the two files (\<^verbatim>\<open>lsp_servers\<close> is indexed by file type id and is \<open>None\<close>
  when the pointer is NULL), and the log.
\<close>

record world =
  heap :: "nat \<Rightarrow> LspServer"
  next_srv :: nat
  next_proc :: nat
  freed :: "nat set"
  lsp_servers :: "nat list option"
  servers_in_shutdown :: "nat list"
  open_docs :: "nat set"
  doc_version_nums :: "string \<Rightarrow> 32 word option"
  effects :: "effect list"

definition emit :: "effect list \<Rightarrow> world \<Rightarrow> world" where
  "emit es w = w\<lparr>effects := effects w @ es\<rparr>"

definition set_server :: "nat \<Rightarrow> LspServer \<Rightarrow> world \<Rightarrow> world" where
  "set_server s srv w = w\<lparr>heap := (heap w)(s := srv)\<rparr>"

subsection \<open>Stopping a server\<close>

text \<open>
  \<^verbatim>\<open>g_ptr_array_remove_fast\<close>: the first occurrence is overwritten by the last
  element and the array shrinks by one; nothing happens when the pointer is not there.
\<close>

definition ptr_array_remove_fast :: "nat list \<Rightarrow> nat \<Rightarrow> nat list" where
  "ptr_array_remove_fast xs x =
     (if x \<in> set xs
      then butlast (xs[length (takeWhile (\<lambda>y. y \<noteq> x) xs) := last xs])
      else xs)"

text \<open>
  \<^verbatim>\<open>free_server\<close> releases the server; the store keeps the record, marked as freed.
  It is the element destructor of \<^verbatim>\<open>servers_in_shutdown\<close>, so it runs when a
  server is removed from that array.
\<close>

definition free_server :: "nat \<Rightarrow> world \<Rightarrow> world" where
  "free_server s w = w\<lparr>freed := insert s (freed w)\<rparr>"

definition remove_from_shutdown :: "nat \<Rightarrow> world \<Rightarrow> world" where
  "remove_from_shutdown s w =
     (if s \<in> set (servers_in_shutdown w)
      then free_server s
             (w\<lparr>servers_in_shutdown := ptr_array_remove_fast (servers_in_shutdown w) s\<rparr>)
      else w)"

text \<open>
  \<^verbatim>\<open>force_terminate\<close>: both GLib calls return at once when the process is NULL.
\<close>

definition force_terminate :: "nat \<Rightarrow> world \<Rightarrow> world" where
  "force_terminate info w =
     (case process (heap w info) of
        None \<Rightarrow> w
      | Some p \<Rightarrow> emit [SendSignal p, ForceExit p] w)"

definition exit_cb :: "bool \<Rightarrow> nat \<Rightarrow> world \<Rightarrow> world" where
  "exit_cb error srv w =
     remove_from_shutdown srv (if error then force_terminate srv w else w)"

definition shutdown_cb :: "bool \<Rightarrow> nat \<Rightarrow> world \<Rightarrow> world" where
  "shutdown_cb error srv w =
     (if \<not> error then emit [Notify srv ''exit'' None] w
      else remove_from_shutdown srv (force_terminate srv w))"

definition stop_process :: "nat \<Rightarrow> world \<Rightarrow> world" where
  "stop_process s w =
     (let w1 = set_server s ((heap w s)\<lparr>startup_shutdown := True\<rparr>) w;
          w2 = w1\<lparr>servers_in_shutdown := servers_in_shutdown w1 @ [s]\<rparr>
      in emit [Call s ''shutdown''] w2)"

subsection \<open>Starting a server\<close>

definition is_dead :: "LspServer \<Rightarrow> bool" where
  "is_dead server \<longleftrightarrow> 5 <s restarts server"

definition perform_initialize :: "nat \<Rightarrow> world \<Rightarrow> world" where
  "perform_initialize server w =
     emit [Call server ''initialize'']
       (set_server server ((heap w server)\<lparr>startup_shutdown := True\<rparr>) w)"

text \<open>
  \<^verbatim>\<open>start_lsp_server\<close>. \<open>spawn_ok\<close> says whether the operating system starts the
  process. The command line and the environment that are handed to the launcher do not
  influence anything else and are not modelled.
\<close>

definition start_lsp_server :: "bool \<Rightarrow> nat \<Rightarrow> world \<Rightarrow> world" where
  "start_lsp_server spawn_ok server w =
     (let w1 = set_server server ((heap w server)\<lparr>restarts := restarts (heap w server) + 1\<rparr>) w
      in if is_dead (heap w1 server) then emit [Msgbox server] w1
         else if \<not> spawn_ok
         then emit [Spawn server False]
                (set_server server ((heap w1 server)\<lparr>process := None\<rparr>) w1)
         else
           let p = next_proc w1;
               w2 = (set_server server ((heap w1 server)\<lparr>process := Some p\<rparr>) w1)
                      \<lparr>next_proc := Suc p\<rparr>
           in perform_initialize server (emit [Spawn server True, WaitAsync p server] w2))"

text \<open>
  \<^verbatim>\<open>lsp_server_new\<close> and \<^verbatim>\<open>lsp_server_init\<close>: a zeroed server for the file type,
  with the configuration read from the two key files.
\<close>

definition lsp_server_new :: "editor \<Rightarrow> nat \<Rightarrow> LspServer" where
  "lsp_server_new ed ft =
     \<lparr>filetype = ft, process = None, config = filetype_config ed ft,
      startup_shutdown = False, restarts = 0, not_used = False, referenced = None,
      autocomplete_trigger_chars = None, signature_trigger_chars = None,
      srv_use_incremental_sync = False, supports_workspace_symbols = False,
      semantic_token_mask = 0, initialize_response = None\<rparr>"

definition lsp_server_init :: "editor \<Rightarrow> nat \<Rightarrow> world \<Rightarrow> nat \<times> world" where
  "lsp_server_init ed ft w =
     (next_srv w, (set_server (next_srv w) (lsp_server_new ed ft) w)\<lparr>next_srv := Suc (next_srv w)\<rparr>)"

subsection \<open>Document synchronisation\<close>

text \<open>
  \<^verbatim>\<open>open_docs\<close> is the hash set that \<^verbatim>\<open>lsp_sync_init\<close> creates on its first call
  and empties on every call; the functions below are modelled for the time after that
  first call. \<^verbatim>\<open>doc_version_nums\<close> is created on demand and never emptied.
\<close>

definition lsp_sync_init :: "world \<Rightarrow> world" where
  "lsp_sync_init w = w\<lparr>open_docs := {}\<rparr>"

text \<open>
  \<^verbatim>\<open>get_next_doc_version_num\<close>: the counter is a \<^verbatim>\<open>guint\<close> kept in a table
  keyed by the real path; a path that is not in the table reads as 0.
\<close>

definition get_next_doc_version_num :: "GeanyDocument \<Rightarrow> world \<Rightarrow> 32 word \<times> world" where
  "get_next_doc_version_num doc w =
     (case real_path doc of
        None \<Rightarrow> (0, w)
      | Some path \<Rightarrow>
          (let num = (case doc_version_nums w path of None \<Rightarrow> 0 | Some n \<Rightarrow> n) + 1
           in (num, w\<lparr>doc_version_nums := (doc_version_nums w)(path \<mapsto> num)\<rparr>)))"

definition lsp_sync_is_document_open :: "GeanyDocument \<Rightarrow> world \<Rightarrow> bool" where
  "lsp_sync_is_document_open doc w \<longleftrightarrow> doc_ptr doc \<in> open_docs w"

definition did_open_message :: "GeanyDocument \<Rightarrow> 32 word \<Rightarrow> gvariant" where
  "did_open_message doc doc_version =
     GDict [(''textDocument'', GDict
       [(''uri'', GString (doc_uri doc)),
        (''languageId'', GString (lsp_lang_name doc)),
        (''version'', GInt32 doc_version),
        (''text'', GString (sci_contents doc))])]"

definition lsp_sync_text_document_did_open :: "nat \<Rightarrow> GeanyDocument \<Rightarrow> world \<Rightarrow> world" where
  "lsp_sync_text_document_did_open server doc w =
     (if lsp_sync_is_document_open doc w then w
      else
        let w1 = w\<lparr>open_docs := insert (doc_ptr doc) (open_docs w)\<rparr>;
            (doc_version, w2) = get_next_doc_version_num doc w1
        in emit [Notify server ''textDocument/didOpen''
                   (Some (did_open_message doc doc_version))] w2)"

definition lsp_sync_text_document_did_close :: "nat \<Rightarrow> GeanyDocument \<Rightarrow> world \<Rightarrow> world" where
  "lsp_sync_text_document_did_close server doc w =
     (if \<not> lsp_sync_is_document_open doc w then w
      else
        emit [Notify server ''textDocument/didClose''
                (Some (GDict [(''textDocument'', GDict [(''uri'', GString (doc_uri doc))])]))]
          (w\<lparr>open_docs := open_docs w - {doc_ptr doc}\<rparr>))"

definition lsp_sync_text_document_did_save :: "nat \<Rightarrow> GeanyDocument \<Rightarrow> world \<Rightarrow> world" where
  "lsp_sync_text_document_did_save server doc w =
     emit [Notify server ''textDocument/didSave''
             (Some (GDict [(''textDocument'', GDict [(''uri'', GString (doc_uri doc))]),
                           (''text'', GString (sci_contents doc))]))] w"

definition incremental_change :: "LspPosition \<Rightarrow> LspPosition \<Rightarrow> string \<Rightarrow> gvariant" where
  "incremental_change pos_start pos_end text =
     GDict [(''range'', GDict
               [(''start'', GDict [(''line'', GInt32 (line pos_start)),
                                   (''character'', GInt32 (character pos_start))]),
                (''end'', GDict [(''line'', GInt32 (line pos_end)),
                                 (''character'', GInt32 (character pos_end))])]),
            (''text'', GString text)]"

definition full_change :: "GeanyDocument \<Rightarrow> gvariant" where
  "full_change doc = GDict [(''text'', GString (sci_contents doc))]"

definition did_change_message :: "GeanyDocument \<Rightarrow> 32 word \<Rightarrow> gvariant \<Rightarrow> gvariant" where
  "did_change_message doc doc_version change =
     GDict [(''textDocument'', GDict [(''uri'', GString (doc_uri doc)),
                                      (''version'', GInt32 doc_version)]),
            (''contentChanges'', GArray [change])]"

definition lsp_sync_text_document_did_change ::
  "nat \<Rightarrow> GeanyDocument \<Rightarrow> LspPosition \<Rightarrow> LspPosition \<Rightarrow> string \<Rightarrow> world \<Rightarrow> world" where
  "lsp_sync_text_document_did_change server doc pos_start pos_end text w =
     (let (doc_version, w1) = get_next_doc_version_num doc w;
          node = (if srv_use_incremental_sync (heap w1 server)
                  then did_change_message doc doc_version
                         (incremental_change pos_start pos_end text)
                  else did_change_message doc doc_version (full_change doc))
      in emit [Notify server ''textDocument/didChange'' (Some node)] w1)"

subsection \<open>Finding the server of a file type\<close>

text \<open>
  \<^verbatim>\<open>g_strstrip\<close> removes the characters that GLib's \<^verbatim>\<open>g_ascii_isspace\<close> accepts
  from both ends: space, tab, line feed, form feed and carriage return (the vertical
  tab 0x0B is not among them).
\<close>

definition is_space :: "char \<Rightarrow> bool" where
  "is_space c \<longleftrightarrow> c \<in> set [CHR '' '', CHR 0x09, CHR 0x0A, CHR 0x0C, CHR 0x0D]"

definition g_strstrip :: "string \<Rightarrow> string" where
  "g_strstrip str = rev (dropWhile is_space (rev (dropWhile is_space str)))"

definition EMPTY :: "string option \<Rightarrow> bool" where
  "EMPTY ptr = (case ptr of None \<Rightarrow> True | Some str \<Rightarrow> str = [])"

text \<open>
  \<^verbatim>\<open>server_get_or_start_for_ft(ft, launch_server)\<close>. \<open>ft\<close> is \<open>None\<close> for a NULL
  file type. File type ids index \<^verbatim>\<open>lsp_servers\<close>, which
  \<^verbatim>\<open>lsp_server_init_all\<close> fills with one server per file type; an id outside the
  array (which the C code would read out of bounds) is answered like a NULL file type.
\<close>

definition server_get_or_start_for_ft ::
  "editor \<Rightarrow> bool \<Rightarrow> nat option \<Rightarrow> bool \<Rightarrow> world \<Rightarrow> nat option \<times> world" where
  "server_get_or_start_for_ft ed spawn_ok ft launch_server w =
     (case (ft, lsp_servers w) of
        (Some ft_id, Some servers) \<Rightarrow>
          if lsp_disabled_for_project ed \<or> \<not> ft_id < length servers then (None, w)
          else
            let s0 = servers ! ft_id;
                s = (case referenced (heap w s0) of Some r \<Rightarrow> r | None \<Rightarrow> s0)
            in if startup_shutdown (heap w s) then (None, w)
               else if process (heap w s) \<noteq> None then (Some s, w)
               else if not_used (heap w s) then (None, w)
               else if is_dead (heap w s) then (None, w)
               else if \<not> launch_server then (None, w)
               else
                 let s2 = (case ref_lang (config (heap w s)) of
                             None \<Rightarrow> None
                           | Some name \<Rightarrow>
                               (case filetypes_lookup_by_name ed name of
                                  None \<Rightarrow> None
                                | Some ft2 \<Rightarrow>
                                    if ft2 < length servers then Some (servers ! ft2) else None));
                     w1 = (case s2 of
                             None \<Rightarrow> w
                           | Some r \<Rightarrow> set_server s ((heap w s)\<lparr>referenced := Some r\<rparr>) w)
                 in if (case s2 of None \<Rightarrow> False | Some r \<Rightarrow> process (heap w1 r) \<noteq> None)
                    then (s2, w1)
                    else
                      let s' = (case s2 of None \<Rightarrow> s | Some r \<Rightarrow> r);
                          cmd' = map_option g_strstrip (cmd (config (heap w1 s')));
                          w2 = set_server s'
                                 ((heap w1 s')\<lparr>config := (config (heap w1 s'))\<lparr>cmd := cmd'\<rparr>\<rparr>) w1
                      in if EMPTY cmd'
                         then (None, set_server s'
                                 ((heap w2 s')\<lparr>config := (config (heap w2 s'))\<lparr>cmd := None\<rparr>,
                                               not_used := True\<rparr>) w2)
                         else (None, start_lsp_server spawn_ok s' w2)
      | _ \<Rightarrow> (None, w))"

definition lsp_server_get_for_ft ::
  "editor \<Rightarrow> bool \<Rightarrow> nat option \<Rightarrow> world \<Rightarrow> nat option \<times> world" where
  "lsp_server_get_for_ft ed spawn_ok ft w = server_get_or_start_for_ft ed spawn_ok ft True w"

definition is_lsp_valid_for_doc :: "editor \<Rightarrow> LspServerConfig \<Rightarrow> GeanyDocument option \<Rightarrow> bool" where
  "is_lsp_valid_for_doc ed cfg doc =
     (if \<not> use_without_project cfg \<and> \<not> project_open ed then False
      else case doc of
             None \<Rightarrow> False
           | Some d \<Rightarrow>
               (case real_path d of
                  None \<Rightarrow> False
                | Some path \<Rightarrow>
                    if use_outside_project_dir cfg \<or> \<not> project_open ed then True
                    else path_inside_project ed path))"

definition server_get_for_doc ::
  "editor \<Rightarrow> bool \<Rightarrow> GeanyDocument option \<Rightarrow> bool \<Rightarrow> world \<Rightarrow> nat option \<times> world" where
  "server_get_for_doc ed spawn_ok doc launch_server w =
     (case doc of
        None \<Rightarrow> (None, w)
      | Some d \<Rightarrow>
          (case server_get_or_start_for_ft ed spawn_ok (Some (file_type_id d)) launch_server w of
             (None, w') \<Rightarrow> (None, w')
           | (Some srv, w') \<Rightarrow>
               if \<not> is_lsp_valid_for_doc ed (config (heap w' srv)) doc then (None, w')
               else (Some srv, w')))"

definition lsp_server_get ::
  "editor \<Rightarrow> bool \<Rightarrow> GeanyDocument option \<Rightarrow> world \<Rightarrow> nat option \<times> world" where
  "lsp_server_get ed spawn_ok doc w = server_get_for_doc ed spawn_ok doc True w"

text \<open>With \<^verbatim>\<open>launch_server\<close> FALSE nothing is spawned, so no spawn result is read.\<close>

definition lsp_server_get_if_running ::
  "editor \<Rightarrow> GeanyDocument option \<Rightarrow> world \<Rightarrow> nat option \<times> world" where
  "lsp_server_get_if_running ed doc w = server_get_for_doc ed False doc False w"

definition server_get_configured_for_ft :: "editor \<Rightarrow> nat \<Rightarrow> world \<Rightarrow> nat option" where
  "server_get_configured_for_ft ed ft_id w =
     (case lsp_servers w of
        None \<Rightarrow> None
      | Some servers \<Rightarrow>
          if lsp_disabled_for_project ed \<or> \<not> ft_id < length servers then None
          else
            let s = servers ! ft_id
            in (case ref_lang (config (heap w s)) of
                  None \<Rightarrow> Some s
                | Some name \<Rightarrow>
                    (case filetypes_lookup_by_name ed name of
                       None \<Rightarrow> None
                     | Some ft2 \<Rightarrow> if ft2 < length servers then Some (servers ! ft2) else None)))"

definition server_get_configured_for_doc ::
  "editor \<Rightarrow> GeanyDocument option \<Rightarrow> world \<Rightarrow> nat option" where
  "server_get_configured_for_doc ed doc w =
     (case doc of
        None \<Rightarrow> None
      | Some d \<Rightarrow>
          (case server_get_configured_for_ft ed (file_type_id d) w of
             None \<Rightarrow> None
           | Some s \<Rightarrow> if \<not> is_lsp_valid_for_doc ed (config (heap w s)) doc then None else Some s))"

definition lsp_server_is_usable :: "editor \<Rightarrow> GeanyDocument option \<Rightarrow> world \<Rightarrow> bool" where
  "lsp_server_is_usable ed doc w =
     (case server_get_configured_for_doc ed doc w of
        None \<Rightarrow> False
      | Some s \<Rightarrow> \<not> not_used (heap w s) \<and> \<not> is_dead (heap w s))"

subsection \<open>The callbacks of the handshake and of process exit\<close>

text \<open>
  \<^verbatim>\<open>initialize_cb(return_value, error, user_data)\<close>. \<open>error\<close> says whether the
  request failed; \<open>spawn_ok\<close> is the result of the spawn that the failure branch makes
  through \<^verbatim>\<open>start_lsp_server\<close>. \<^verbatim>\<open>lsp_semtokens_init\<close> belongs to another file
  and changes nothing that is modelled here.
\<close>

definition initialize_cb ::
  "editor \<Rightarrow> bool \<Rightarrow> gvariant \<Rightarrow> bool \<Rightarrow> nat \<Rightarrow> world \<Rightarrow> world" where
  "initialize_cb ed spawn_ok return_value error s w =
     (if \<not> error then
        let srv = heap w s;
            ac = get_autocomplete_trigger_chars return_value;
            sg = get_signature_trigger_chars return_value;
            cfg = config srv;
            cfg1 = cfg\<lparr>
              autocomplete_enable := (if ac = [] then False else autocomplete_enable cfg),
              signature_enable := (if sg = [] then False else signature_enable cfg),
              hover_enable := update_config return_value (hover_enable cfg) ''hoverProvider'',
              goto_enable := update_config return_value (goto_enable cfg) ''definitionProvider'',
              document_symbols_enable :=
                update_config return_value (document_symbols_enable cfg) ''documentSymbolProvider'',
              highlighting_enable :=
                update_config return_value (highlighting_enable cfg) ''documentHighlightProvider'',
              semantic_tokens_enable :=
                (if \<not> supports_semantic_tokens return_value then False
                 else semantic_tokens_enable cfg)\<rparr>;
            srv1 = srv\<lparr>
              autocomplete_trigger_chars := Some ac,
              signature_trigger_chars := Some sg,
              config := cfg1,
              supports_workspace_symbols :=
                update_config return_value True ''workspaceSymbolProvider'',
              srv_use_incremental_sync := use_incremental_sync return_value,
              initialize_response := Some return_value,
              semantic_token_mask := get_semantic_token_mask return_value,
              startup_shutdown := False\<rparr>;
            w1 = emit [Notify s ''initialized'' None] (set_server s srv1 w)
        in foldl (\<lambda>w' doc.
                    if file_type_id doc = filetype (heap w' s)
                       \<and> (changed doc \<or> current_doc ed = Some (doc_ptr doc))
                    then (case lsp_server_get_if_running ed (Some doc) w' of
                            (None, w'') \<Rightarrow> w''
                          | (Some s2, w'') \<Rightarrow> lsp_sync_text_document_did_open s doc w'')
                    else w')
             w1 (documents ed)
      else
        let restarts0 = restarts (heap w s);
            w1 = stop_process s w;
            (s', w2) = lsp_server_init ed (filetype (heap w1 s)) w1;
            w3 = set_server s' ((heap w2 s')\<lparr>restarts := restarts0\<rparr>) w2;
            w4 = w3\<lparr>lsp_servers :=
                      map_option (\<lambda>servers. servers[filetype (heap w3 s') := s']) (lsp_servers w3)\<rparr>
        in start_lsp_server spawn_ok s' w4)"

text \<open>
  \<^verbatim>\<open>process_stopped(source_object, res, data)\<close>: \<open>proc\<close> is the process that
  ended, \<open>data\<close> the server it was registered with. The C code reads
  \<^verbatim>\<open>s->filetype\<close> after \<^verbatim>\<open>free_server(s)\<close>; the store still holds the record.
\<close>

definition process_stopped :: "editor \<Rightarrow> bool \<Rightarrow> nat \<Rightarrow> nat option \<Rightarrow> world \<Rightarrow> world" where
  "process_stopped ed spawn_ok proc data w =
     (case data of
        None \<Rightarrow> w
      | Some s \<Rightarrow>
          if process (heap w s) = Some proc then
            let restarts0 = restarts (heap w s);
                w1 = free_server s w;
                (s', w2) = lsp_server_init ed (filetype (heap w1 s)) w1;
                w3 = set_server s' ((heap w2 s')\<lparr>restarts := restarts0\<rparr>) w2;
                w4 = w3\<lparr>lsp_servers :=
                          map_option (\<lambda>servers. servers[filetype (heap w3 s') := s']) (lsp_servers w3)\<rparr>
            in start_lsp_server spawn_ok s' w4
          else w)"

subsection \<open>The capability of the protocol, in the words of the specification\<close>

text \<open>
  The \<^verbatim>\<open>textDocumentSync\<close> capability of a response: the number itself when the
  field is a number, the \<^verbatim>\<open>change\<close> field when it is an object, nothing otherwise.
\<close>

definition text_document_sync_kind :: "gvariant \<Rightarrow> 64 word option" where
  "text_document_sync_kind response =
     (case message_parse response [''capabilities'', ''textDocumentSync''] of
        Some (GInt64 n) \<Rightarrow> Some n
      | Some (GDict kvs) \<Rightarrow>
          (case map_of kvs ''change'' of Some (GInt64 n) \<Rightarrow> Some n | _ \<Rightarrow> None)
      | _ \<Rightarrow> None)"

subsection \<open>A small configuration to run the code on\<close>

text \<open>
  One file type (id 0) whose server is started by the command \<^verbatim>\<open>srv\<close>, every feature
  switched on, no project, no document; the state is the one that
  \<^verbatim>\<open>lsp_server_init_all\<close> leaves behind.
\<close>

definition example_config :: LspServerConfig where
  "example_config =
     \<lparr>cmd = Some ''srv'', ref_lang = None, use_outside_project_dir = True,
      use_without_project = True, autocomplete_enable = True, signature_enable = True,
      hover_enable = True, goto_enable = True, document_symbols_enable = True,
      highlighting_enable = True, semantic_tokens_enable = True\<rparr>"

definition example_editor :: editor where
  "example_editor =
     \<lparr>documents = [], current_doc = None, project_open = False,
      lsp_disabled_for_project = False, path_inside_project = (\<lambda>path. True),
      filetypes_lookup_by_name = (\<lambda>name. None),
      filetype_config = (\<lambda>ft. example_config)\<rparr>"

definition fresh_world :: world where
  "fresh_world =
     \<lparr>heap = (\<lambda>s. lsp_server_new example_editor 0), next_srv = 1, next_proc = 0,
      freed = {}, lsp_servers = Some [0], servers_in_shutdown = [], open_docs = {},
      doc_version_nums = (\<lambda>path. None), effects = []\<rparr>"

definition example_response :: gvariant where
  "example_response =
     GDict [(''capabilities'', GDict
       [(''completionProvider'', GDict [(''triggerCharacters'', GArray [])]),
        (''signatureHelpProvider'', GDict [(''triggerCharacters'', GArray [])]),
        (''hoverProvider'', GBool True),
        (''definitionProvider'', GBool True),
        (''documentSymbolProvider'', GBool True),
        (''documentHighlightProvider'', GBool True),
        (''semanticTokensProvider'', GDict [(''full'', GDict [(''delta'', GBool True)])])])]"

subsection \<open>Observing the log\<close>

fun is_spawn :: "effect \<Rightarrow> bool" where
  "is_spawn (Spawn s ok) = True"
| "is_spawn _ = False"

fun is_msgbox :: "effect \<Rightarrow> bool" where
  "is_msgbox (Msgbox s) = True"
| "is_msgbox _ = False"

subsection \<open>A server whose initialize request always fails\<close>

text \<open>
  The first trigger for file type 0 starts server 0. Its initialize request fails, which
  replaces it by server 1 and starts that one; and so on, five failures in a row. Every
  spawn succeeds. \<open>crash6\<close> is the state after the fifth failure.
\<close>

definition crash1 :: world where
  "crash1 = snd (lsp_server_get_for_ft example_editor True (Some 0) fresh_world)"

definition crash2 :: world where
  "crash2 = initialize_cb example_editor True GNull True 0 crash1"

definition crash3 :: world where
  "crash3 = initialize_cb example_editor True GNull True 1 crash2"

definition crash4 :: world where
  "crash4 = initialize_cb example_editor True GNull True 2 crash3"

definition crash5 :: world where
  "crash5 = initialize_cb example_editor True GNull True 3 crash4"

definition crash6 :: world where
  "crash6 = initialize_cb example_editor True GNull True 4 crash5"

subsection \<open>Runs of the synchronisation interface\<close>

text \<open>
  One editor run, as far as \<^verbatim>\<open>lsp-sync.c\<close> sees it, is a sequence of calls of its
  five functions. \<open>version_of\<close> reads the counter of a path the way
  \<^verbatim>\<open>get_next_doc_version_num\<close> does (0 when the path is not in the table);
  \<open>sent_to s\<close> picks the notifications handed to server \<open>s\<close>.
\<close>

datatype sync_call =
    DidOpen nat GeanyDocument
  | DidClose nat GeanyDocument
  | DidSave nat GeanyDocument
  | DidChange nat GeanyDocument LspPosition LspPosition string
  | SyncInit

fun do_sync_call :: "sync_call \<Rightarrow> world \<Rightarrow> world" where
  "do_sync_call (DidOpen server doc) w = lsp_sync_text_document_did_open server doc w"
| "do_sync_call (DidClose server doc) w = lsp_sync_text_document_did_close server doc w"
| "do_sync_call (DidSave server doc) w = lsp_sync_text_document_did_save server doc w"
| "do_sync_call (DidChange server doc pos_start pos_end text) w =
     lsp_sync_text_document_did_change server doc pos_start pos_end text w"
| "do_sync_call SyncInit w = lsp_sync_init w"

definition run_sync :: "sync_call list \<Rightarrow> world \<Rightarrow> world" where
  "run_sync calls w = foldl (\<lambda>w' c. do_sync_call c w') w calls"

definition version_of :: "world \<Rightarrow> string \<Rightarrow> 32 word" where
  "version_of w path = (case doc_version_nums w path of None \<Rightarrow> 0 | Some n \<Rightarrow> n)"

fun sent_to :: "nat \<Rightarrow> effect \<Rightarrow> bool" where
  "sent_to s (Notify s' m params) = (s' = s)"
| "sent_to s _ = False"

text \<open>A document of file type 0 with a file, and a server that negotiated incremental sync.\<close>

definition example_doc :: GeanyDocument where
  "example_doc =
     \<lparr>doc_ptr = 0, file_type_id = 0, real_path = Some ''/a.c'', changed = False,
      sci_contents = ''int x;'', doc_uri = ''file:///a.c'', lsp_lang_name = ''c''\<rparr>"

definition incremental_world :: world where
  "incremental_world =
     initialize_cb example_editor True
       (GDict [(''capabilities'', GDict [(''textDocumentSync'', GInt64 2)])]) False 0 fresh_world"

definition origin :: LspPosition where
  "origin = \<lparr>line = 0, character = 0\<rparr>"

subsection \<open>Aliased servers\<close>

text \<open>
  \<open>aliased ed ft a b w\<close>: the server \<open>a\<close> in the slot of file type \<open>ft\<close> has never
  been started, its \<^verbatim>\<open>use\<close> setting names a file type whose slot holds another
  server \<open>b\<close>, which is not an alias itself, and \<open>a\<close> refers to nothing or to \<open>b\<close>.
  \<open>resolve\<close> is one call of \<^verbatim>\<open>server_get_or_start_for_ft\<close> for the file type,
  given the spawn result and the launch flag; \<open>spawn_of s\<close> picks the spawns made for
  server \<open>s\<close>.
\<close>

fun spawn_of :: "nat \<Rightarrow> effect \<Rightarrow> bool" where
  "spawn_of s (Spawn s' ok) = (s' = s)"
| "spawn_of s _ = False"

definition aliased :: "editor \<Rightarrow> nat \<Rightarrow> nat \<Rightarrow> nat \<Rightarrow> world \<Rightarrow> bool" where
  "aliased ed ft a b w \<longleftrightarrow>
     (case lsp_servers w of
        None \<Rightarrow> False
      | Some servers \<Rightarrow>
          ft < length servers \<and> servers ! ft = a \<and> a \<noteq> b
          \<and> process (heap w a) = None \<and> \<not> startup_shutdown (heap w a)
          \<and> \<not> not_used (heap w a) \<and> \<not> is_dead (heap w a)
          \<and> (referenced (heap w a) = None \<or> referenced (heap w a) = Some b)
          \<and> (case ref_lang (config (heap w a)) of
                None \<Rightarrow> False
              | Some name \<Rightarrow>
                  (case filetypes_lookup_by_name ed name of
                     None \<Rightarrow> False
                   | Some ft2 \<Rightarrow> ft2 < length servers \<and> servers ! ft2 = b))
          \<and> ref_lang (config (heap w b)) = None)"

definition resolve :: "editor \<Rightarrow> nat \<Rightarrow> bool \<times> bool \<Rightarrow> world \<Rightarrow> world" where
  "resolve ed ft call w = snd (server_get_or_start_for_ft ed (fst call) (Some ft) (snd call) w)"

text \<open>
  Two file types: file type 0 has no command and \<^verbatim>\<open>use=b\<close>, file type 1 (named
  \<^verbatim>\<open>b\<close>) has the command \<^verbatim>\<open>srv\<close>. In \<open>alias_ready_world\<close> the server of file
  type 1 has been started and has answered initialize. The last two definitions are one
  file type whose \<^verbatim>\<open>use\<close> setting names no file type, with a command of its own or
  without.
\<close>

definition alias_config :: LspServerConfig where
  "alias_config = example_config\<lparr>cmd := None, ref_lang := Some ''b''\<rparr>"

definition alias_editor :: editor where
  "alias_editor =
     example_editor\<lparr>
       filetypes_lookup_by_name := (\<lambda>name. if name = ''b'' then Some 1 else None),
       filetype_config := (\<lambda>ft. if ft = 0 then alias_config else example_config)\<rparr>"

definition alias_world :: world where
  "alias_world =
     fresh_world\<lparr>heap := (\<lambda>s. lsp_server_new alias_editor s), next_srv := 2,
                  lsp_servers := Some [0, 1]\<rparr>"

definition alias_ready_world :: world where
  "alias_ready_world =
     initialize_cb alias_editor True example_response False 1
       (snd (lsp_server_get_for_ft alias_editor True (Some 1) alias_world))"

definition unknown_alias_editor :: "string option \<Rightarrow> editor" where
  "unknown_alias_editor c =
     example_editor\<lparr>
       filetype_config := (\<lambda>ft. example_config\<lparr>cmd := c, ref_lang := Some ''nolang''\<rparr>)\<rparr>"

definition unknown_alias_world :: "string option \<Rightarrow> world" where
  "unknown_alias_world c =
     fresh_world\<lparr>heap := (\<lambda>s. lsp_server_new (unknown_alias_editor c) 0)\<rparr>"

subsection \<open>Triggers\<close>



definition chain_editor :: editor where
  "chain_editor =
     example_editor\<lparr>
       filetypes_lookup_by_name :=
         (\<lambda>name. if name = ''b'' then Some 1 else if name = ''c'' then Some 2 else None),
       filetype_config :=
         (\<lambda>ft. if ft = 0 then example_config\<lparr>cmd := None, ref_lang := Some ''b''\<rparr>
               else if ft = 1 then example_config\<lparr>ref_lang := Some ''c''\<rparr>
               else example_config)\<rparr>"

definition chain_world :: world where
  "chain_world =
     fresh_world\<lparr>heap := (\<lambda>s. lsp_server_new chain_editor s), next_srv := 3,
                  lsp_servers := Some [0, 1, 2]\<rparr>"

definition chain_ready_world :: world where
  "chain_ready_world =
     initialize_cb chain_editor True example_response False 2
       (snd (lsp_server_get_for_ft chain_editor True (Some 2) chain_world))"

section \<open>Properties\<close>

subsection \<open>What each function leaves alone\<close>

lemma heap_emit [simp]: "heap (emit es w) = heap w"
  by (simp add: emit_def)

lemma heap_set_server [simp]: "heap (set_server s srv w) = (heap w)(s := srv)"
  by (simp add: set_server_def)

lemma effects_set_server [simp]: "effects (set_server s srv w) = effects w"
  by (simp add: set_server_def)

lemma effects_emit [simp]: "effects (emit es w) = effects w @ es"
  by (simp add: emit_def)

lemma no_launch_unchanged:
  "snd (server_get_or_start_for_ft ed spawn_ok ft False w) = w"
  by (simp add: server_get_or_start_for_ft_def Let_def split: option.splits)

lemma get_if_running_unchanged:
  "snd (lsp_server_get_if_running ed doc w) = w"
proof (cases doc)
  case None
  then show ?thesis
    by (simp add: lsp_server_get_if_running_def server_get_for_doc_def)
next
  case (Some d)
  obtain r w' where r: "server_get_or_start_for_ft ed False (Some (file_type_id d)) False w = (r, w')"
    by (cases "server_get_or_start_for_ft ed False (Some (file_type_id d)) False w")
  with no_launch_unchanged [of ed False "Some (file_type_id d)" w] have "w' = w"
    by simp
  with r Some show ?thesis
    by (simp add: lsp_server_get_if_running_def server_get_for_doc_def split: option.splits)
qed

lemma heap_did_open [simp]:
  "heap (lsp_sync_text_document_did_open s doc w) = heap w"
  by (simp add: lsp_sync_text_document_did_open_def get_next_doc_version_num_def Let_def
      split: option.splits)

lemma heap_replay:
  "heap (foldl (\<lambda>w' doc.
                    if file_type_id doc = filetype (heap w' s)
                       \<and> (changed doc \<or> current_doc ed = Some (doc_ptr doc))
                    then (case lsp_server_get_if_running ed (Some doc) w' of
                            (None, w'') \<Rightarrow> w''
                          | (Some s2, w'') \<Rightarrow> lsp_sync_text_document_did_open s doc w'')
                    else w') w1 docs) = heap w1"
proof (induction docs arbitrary: w1)
  case Nil
  show ?case by simp
next
  case (Cons d ds)
  have "snd (lsp_server_get_if_running ed (Some d) w1) = w1"
    by (rule get_if_running_unchanged)
  then show ?case
    by (cases "lsp_server_get_if_running ed (Some d) w1") (auto simp: Cons.IH split: option.splits)
qed

lemma initialize_cb_ok_server:
  "heap (initialize_cb ed spawn_ok rv False s w) s =
     (heap w s)\<lparr>
        autocomplete_trigger_chars := Some (get_autocomplete_trigger_chars rv),
        signature_trigger_chars := Some (get_signature_trigger_chars rv),
        config := (config (heap w s))\<lparr>
              autocomplete_enable := (if get_autocomplete_trigger_chars rv = [] then False else autocomplete_enable (config (heap w s))),
              signature_enable := (if get_signature_trigger_chars rv = [] then False else signature_enable (config (heap w s))),
              hover_enable := update_config rv (hover_enable (config (heap w s))) ''hoverProvider'',
              goto_enable := update_config rv (goto_enable (config (heap w s))) ''definitionProvider'',
              document_symbols_enable :=
                update_config rv (document_symbols_enable (config (heap w s))) ''documentSymbolProvider'',
              highlighting_enable :=
                update_config rv (highlighting_enable (config (heap w s))) ''documentHighlightProvider'',
              semantic_tokens_enable :=
                (if \<not> supports_semantic_tokens rv then False
                 else semantic_tokens_enable (config (heap w s)))\<rparr>,
        supports_workspace_symbols := update_config rv True ''workspaceSymbolProvider'',
        srv_use_incremental_sync := use_incremental_sync rv,
        initialize_response := Some rv,
        semantic_token_mask := get_semantic_token_mask rv,
        startup_shutdown := False\<rparr>"
  by (simp add: initialize_cb_def Let_def heap_replay)

lemma message_parse_snoc:
  "message_parse node (ks @ [k]) =
     (case message_parse node ks of None \<Rightarrow> None | Some v \<Rightarrow> dict_lookup v k)"
  by (induction ks arbitrary: node) (auto split: option.splits)

lemma sync_change_path:
  "message_parse rv [''capabilities'', ''textDocumentSync'', ''change''] =
     (case message_parse rv [''capabilities'', ''textDocumentSync''] of
        None \<Rightarrow> None | Some v \<Rightarrow> dict_lookup v ''change'')"
  using message_parse_snoc [of rv "[''capabilities'', ''textDocumentSync'']" "''change''"]
  by simp

lemma use_incremental_sync_kind:
  "use_incremental_sync rv \<longleftrightarrow> text_document_sync_kind rv = Some 2"
proof (cases "message_parse rv [''capabilities'', ''textDocumentSync'']")
  case None
  then show ?thesis
    by (simp add: use_incremental_sync_def text_document_sync_kind_def parse_get_int64_def
        sync_change_path del: message_parse.simps)
next
  case (Some v)
  then show ?thesis
    by (cases v)
      (simp_all add: use_incremental_sync_def text_document_sync_kind_def parse_get_int64_def
        sync_change_path del: message_parse.simps split: option.splits gvariant.splits)
qed


subsection \<open>Capability negotiation\<close>

text \<open>
  Claim C3. Incremental synchronisation is selected exactly when the
  \<^verbatim>\<open>textDocumentSync\<close> capability of the initialize response (the number, or the
  \<^verbatim>\<open>change\<close> field of the object) is 2; every other value, 0 and a missing
  capability among them, selects full-document synchronisation. This holds for
  \<^verbatim>\<open>use_incremental_sync\<close> and for the flag that \<^verbatim>\<open>initialize_cb\<close> stores.
\<close>

theorem incremental_sync_iff_kind_2:
  "use_incremental_sync response = (text_document_sync_kind response = Some 2)
   \<and> srv_use_incremental_sync (heap (initialize_cb ed spawn_ok response False s w) s)
       = (text_document_sync_kind response = Some 2)"
  by (simp add: initialize_cb_ok_server use_incremental_sync_kind)

text \<open>Claim C3, at five concrete responses: 2, nested 2, 0, nested 1, and no capability.\<close>

theorem incremental_sync_iff_kind_2_witness:
  "srv_use_incremental_sync
     (heap (initialize_cb example_editor True
              (GDict [(''capabilities'', GDict [(''textDocumentSync'', GInt64 2)])])
              False 0 fresh_world) 0)
   \<and> srv_use_incremental_sync
     (heap (initialize_cb example_editor True
              (GDict [(''capabilities'',
                       GDict [(''textDocumentSync'', GDict [(''change'', GInt64 2)])])])
              False 0 fresh_world) 0)
   \<and> \<not> srv_use_incremental_sync
     (heap (initialize_cb example_editor True
              (GDict [(''capabilities'', GDict [(''textDocumentSync'', GInt64 0)])])
              False 0 fresh_world) 0)
   \<and> \<not> srv_use_incremental_sync
     (heap (initialize_cb example_editor True
              (GDict [(''capabilities'',
                       GDict [(''textDocumentSync'', GDict [(''change'', GInt64 1)])])])
              False 0 fresh_world) 0)
   \<and> \<not> srv_use_incremental_sync
     (heap (initialize_cb example_editor True (GDict [(''capabilities'', GDict [])])
              False 0 fresh_world) 0)"
  using
    incremental_sync_iff_kind_2 [of "GDict [(''capabilities'', GDict [(''textDocumentSync'', GInt64 2)])]"
      example_editor True 0 fresh_world]
    incremental_sync_iff_kind_2 [of "GDict [(''capabilities'',
                       GDict [(''textDocumentSync'', GDict [(''change'', GInt64 2)])])]"
      example_editor True 0 fresh_world]
    incremental_sync_iff_kind_2 [of "GDict [(''capabilities'', GDict [(''textDocumentSync'', GInt64 0)])]"
      example_editor True 0 fresh_world]
    incremental_sync_iff_kind_2 [of "GDict [(''capabilities'',
                       GDict [(''textDocumentSync'', GDict [(''change'', GInt64 1)])])]"
      example_editor True 0 fresh_world]
    incremental_sync_iff_kind_2 [of "GDict [(''capabilities'', GDict [])]"
      example_editor True 0 fresh_world]
  by (simp add: text_document_sync_kind_def)

text \<open>
  Claim C6 says that workspace symbols stay enabled when the response does not mention
  \<^verbatim>\<open>workspaceSymbolProvider\<close>. They do not: \<^verbatim>\<open>update_config\<close> clears the flag
  whenever it finds no boolean TRUE under the key.
\<close>

theorem workspace_symbols_absent_counterexample:
  "\<not> supports_workspace_symbols
       (heap (initialize_cb example_editor True (GDict [(''capabilities'', GDict [])])
                False 0 fresh_world) 0)"
  by (simp add: initialize_cb_ok_server update_config_def parse_get_boolean_def)

text \<open>
  Claim C6, as the code has it: after a successful initialize, workspace symbols are
  enabled exactly when \<^verbatim>\<open>capabilities.workspaceSymbolProvider\<close> is the boolean
  TRUE; FALSE, a missing key and a value that is not a boolean all disable them.
\<close>

theorem workspace_symbols_iff_true:
  "supports_workspace_symbols (heap (initialize_cb ed spawn_ok response False s w) s)
     = (message_parse response [''capabilities'', ''workspaceSymbolProvider'']
          = Some (GBool True))"
  by (auto simp add: initialize_cb_ok_server update_config_def parse_get_boolean_def
      simp del: message_parse.simps split: option.splits gvariant.splits)

text \<open>Claim C6, at three concrete responses: TRUE, FALSE, and an options object.\<close>

theorem workspace_symbols_iff_true_witness:
  "supports_workspace_symbols
     (heap (initialize_cb example_editor True
              (GDict [(''capabilities'', GDict [(''workspaceSymbolProvider'', GBool True)])])
              False 0 fresh_world) 0)
   \<and> \<not> supports_workspace_symbols
     (heap (initialize_cb example_editor True
              (GDict [(''capabilities'', GDict [(''workspaceSymbolProvider'', GBool False)])])
              False 0 fresh_world) 0)
   \<and> \<not> supports_workspace_symbols
     (heap (initialize_cb example_editor True
              (GDict [(''capabilities'',
                       GDict [(''workspaceSymbolProvider'',
                               GDict [(''workDoneProgress'', GBool True)])])])
              False 0 fresh_world) 0)"
  using
    workspace_symbols_iff_true [of example_editor True
      "GDict [(''capabilities'', GDict [(''workspaceSymbolProvider'', GBool True)])]" 0 fresh_world]
    workspace_symbols_iff_true [of example_editor True
      "GDict [(''capabilities'', GDict [(''workspaceSymbolProvider'', GBool False)])]" 0 fresh_world]
    workspace_symbols_iff_true [of example_editor True
      "GDict [(''capabilities'',
                       GDict [(''workspaceSymbolProvider'',
                               GDict [(''workDoneProgress'', GBool True)])])]" 0 fresh_world]
  by simp

lemma trigger_chars_empty_list:
  "parse_get_iter response [''capabilities'', ''completionProvider'', ''triggerCharacters''] = Some []
     \<Longrightarrow> get_autocomplete_trigger_chars response = []"
  "parse_get_iter response [''capabilities'', ''signatureHelpProvider'', ''triggerCharacters''] = Some []
     \<Longrightarrow> get_signature_trigger_chars response = []"
  by (simp_all add: get_autocomplete_trigger_chars_def get_signature_trigger_chars_def)

lemma update_config_restricts: "update_config response option key \<Longrightarrow> option"
  by (simp add: update_config_def Let_def split: if_splits)

text \<open>
  Claim C7. A successful initialize response can only switch a feature off: each of the
  seven flags of the configuration (autocomplete, signature help, hover, goto, document
  symbols, highlighting, semantic tokens) that is on afterwards was on before, so a
  feature the local configuration disabled stays disabled. An empty list of completion
  trigger characters switches autocomplete off and an empty list of signature-help
  trigger characters switches signature help off, whatever the configuration said.
\<close>

theorem negotiation_only_restricts:
  "(let before = config (heap w s);
        after = config (heap (initialize_cb ed spawn_ok response False s w) s)
    in (autocomplete_enable after \<longrightarrow> autocomplete_enable before)
     \<and> (signature_enable after \<longrightarrow> signature_enable before)
     \<and> (hover_enable after \<longrightarrow> hover_enable before)
     \<and> (goto_enable after \<longrightarrow> goto_enable before)
     \<and> (document_symbols_enable after \<longrightarrow> document_symbols_enable before)
     \<and> (highlighting_enable after \<longrightarrow> highlighting_enable before)
     \<and> (semantic_tokens_enable after \<longrightarrow> semantic_tokens_enable before)
     \<and> (parse_get_iter response
            [''capabilities'', ''completionProvider'', ''triggerCharacters''] = Some []
          \<longrightarrow> \<not> autocomplete_enable after)
     \<and> (parse_get_iter response
            [''capabilities'', ''signatureHelpProvider'', ''triggerCharacters''] = Some []
          \<longrightarrow> \<not> signature_enable after))"
  using update_config_restricts [of response]
  by (auto simp add: Let_def initialize_cb_ok_server trigger_chars_empty_list
      simp del: message_parse.simps split: if_splits)

text \<open>
  Claim C7, run on a response with empty trigger lists and every provider TRUE, from a
  configuration with every feature on: the two trigger-driven features go off, the
  other five stay on.
\<close>

theorem negotiation_only_restricts_witness:
  "(let before = config (heap fresh_world 0);
        after = config (heap (initialize_cb example_editor True example_response False 0 fresh_world) 0)
    in autocomplete_enable before \<and> \<not> autocomplete_enable after
     \<and> signature_enable before \<and> \<not> signature_enable after
     \<and> hover_enable after \<and> hover_enable before
     \<and> goto_enable after \<and> goto_enable before
     \<and> document_symbols_enable after \<and> document_symbols_enable before
     \<and> highlighting_enable after \<and> highlighting_enable before
     \<and> semantic_tokens_enable after \<and> semantic_tokens_enable before
     \<and> parse_get_iter example_response
            [''capabilities'', ''completionProvider'', ''triggerCharacters''] = Some []
     \<and> parse_get_iter example_response
            [''capabilities'', ''signatureHelpProvider'', ''triggerCharacters''] = Some [])"
  using negotiation_only_restricts [of fresh_world 0 example_editor True example_response]
  by (simp add: Let_def initialize_cb_ok_server example_response_def fresh_world_def
      lsp_server_new_def example_editor_def example_config_def parse_get_iter_def
      get_autocomplete_trigger_chars_def get_signature_trigger_chars_def
      update_config_def parse_get_boolean_def supports_semantic_tokens_def)

subsection \<open>The two-phase stop\<close>

lemma takeWhile_first:
  "s \<notin> set as \<Longrightarrow> takeWhile (\<lambda>y. y \<noteq> s) (as @ s # bs) = as"
  by (induction as) auto

lemma remove_fast_appended:
  "s \<notin> set xs \<Longrightarrow> ptr_array_remove_fast (xs @ [s]) s = xs"
proof -
  assume a: "s \<notin> set xs"
  then have "takeWhile (\<lambda>y. y \<noteq> s) (xs @ [s]) = xs"
    by (rule takeWhile_first)
  then show ?thesis
    by (simp add: ptr_array_remove_fast_def)
qed

lemma remove_fast_distinct:
  assumes "distinct xs"
  shows "s \<notin> set (ptr_array_remove_fast xs s)"
proof (cases "s \<in> set xs")
  case False
  then show ?thesis by (simp add: ptr_array_remove_fast_def)
next
  case True
  then obtain as bs where xs: "xs = as @ s # bs" and as: "s \<notin> set as"
    by (meson split_list_first)
  have tw: "takeWhile (\<lambda>y. y \<noteq> s) xs = as"
    unfolding xs using as by (rule takeWhile_first)
  show ?thesis
  proof (cases "bs = []")
    case True
    with xs as tw show ?thesis
      by (simp add: ptr_array_remove_fast_def)
  next
    case False
    then have l: "last xs = last bs" by (simp add: xs)
    have upd: "xs[length as := last bs] = as @ last bs # bs"
      by (simp add: xs)
    have "butlast (as @ last bs # bs) = as @ last bs # butlast bs"
      using False by (simp add: butlast_append)
    moreover have "s \<noteq> last bs" "s \<notin> set (butlast bs)"
      using assms False xs by (auto dest: in_set_butlastD)
    ultimately show ?thesis
      using as True tw l upd by (simp add: ptr_array_remove_fast_def)
  qed
qed


lemma shutdown_cb_fail_leaves:
  "distinct (servers_in_shutdown w) \<Longrightarrow> s \<notin> set (servers_in_shutdown (shutdown_cb True s w))"
  by (simp add: shutdown_cb_def remove_from_shutdown_def free_server_def force_terminate_def
      emit_def remove_fast_distinct split: option.splits)

lemma exit_cb_leaves:
  "distinct (servers_in_shutdown w) \<Longrightarrow> s \<notin> set (servers_in_shutdown (exit_cb error s w))"
  by (simp add: exit_cb_def remove_from_shutdown_def free_server_def force_terminate_def
      emit_def remove_fast_distinct split: option.splits)

text \<open>
  Claim C8. Stopping a running server sends the shutdown request first. When the
  request succeeds, and only then, the exit notification is sent; when the request
  fails, or the exit notification fails, the process gets SIGTERM followed by a forced
  exit. Whichever way the two callbacks go, the server is out of
  \<^verbatim>\<open>servers_in_shutdown\<close> after the last of them. The last two lines say the same
  for callbacks that arrive in any later state in which the array holds no server twice.
\<close>

theorem two_phase_stop:
  assumes "process (heap w s) = Some p" and "s \<notin> set (servers_in_shutdown w)"
  shows
    "(let w1 = stop_process s w;
          w2 = shutdown_cb shutdown_error s w1;
          w3 = (if shutdown_error then w2 else exit_cb exit_error s w2)
      in effects w1 = effects w @ [Call s ''shutdown'']
       \<and> startup_shutdown (heap w1 s)
       \<and> servers_in_shutdown w1 = servers_in_shutdown w @ [s]
       \<and> effects w2 = effects w1 @
            (if shutdown_error then [SendSignal p, ForceExit p] else [Notify s ''exit'' None])
       \<and> effects w3 = effects w2 @
            (if \<not> shutdown_error \<and> exit_error then [SendSignal p, ForceExit p] else [])
       \<and> servers_in_shutdown w3 = servers_in_shutdown w
       \<and> s \<notin> set (servers_in_shutdown w3))
     \<and> (distinct (servers_in_shutdown w') \<longrightarrow>
          s \<notin> set (servers_in_shutdown (shutdown_cb True s w'))
        \<and> s \<notin> set (servers_in_shutdown (exit_cb exit_error s w')))"
proof -
  have "distinct (servers_in_shutdown w') \<longrightarrow>
          s \<notin> set (servers_in_shutdown (shutdown_cb True s w'))
        \<and> s \<notin> set (servers_in_shutdown (exit_cb exit_error s w'))"
    by (simp add: shutdown_cb_fail_leaves exit_cb_leaves)
  moreover have "(let w1 = stop_process s w;
          w2 = shutdown_cb shutdown_error s w1;
          w3 = (if shutdown_error then w2 else exit_cb exit_error s w2)
      in effects w1 = effects w @ [Call s ''shutdown'']
       \<and> startup_shutdown (heap w1 s)
       \<and> servers_in_shutdown w1 = servers_in_shutdown w @ [s]
       \<and> effects w2 = effects w1 @
            (if shutdown_error then [SendSignal p, ForceExit p] else [Notify s ''exit'' None])
       \<and> effects w3 = effects w2 @
            (if \<not> shutdown_error \<and> exit_error then [SendSignal p, ForceExit p] else [])
       \<and> servers_in_shutdown w3 = servers_in_shutdown w
       \<and> s \<notin> set (servers_in_shutdown w3))"
    using assms
    by (simp add: Let_def stop_process_def shutdown_cb_def exit_cb_def force_terminate_def
        remove_from_shutdown_def free_server_def emit_def set_server_def remove_fast_appended)
  ultimately show ?thesis by blast
qed

text \<open>
  Claim C8, run on the server of the small configuration once it has been started
  (process 0): the shutdown request fails and the process is terminated; the request
  succeeds and the exit notification fails; both succeed.
\<close>

theorem two_phase_stop_witness:
  "process (heap (start_lsp_server True 0 fresh_world) 0) = Some 0
   \<and> 0 \<notin> set (servers_in_shutdown (start_lsp_server True 0 fresh_world))
   \<and> distinct (servers_in_shutdown (stop_process 0 (start_lsp_server True 0 fresh_world)))
   \<and> effects (shutdown_cb True 0 (stop_process 0 (start_lsp_server True 0 fresh_world)))
       = [Spawn 0 True, WaitAsync 0 0, Call 0 ''initialize'', Call 0 ''shutdown'',
          SendSignal 0, ForceExit 0]
   \<and> servers_in_shutdown (shutdown_cb True 0 (stop_process 0 (start_lsp_server True 0 fresh_world)))
       = []
   \<and> effects (exit_cb True 0
        (shutdown_cb False 0 (stop_process 0 (start_lsp_server True 0 fresh_world))))
       = [Spawn 0 True, WaitAsync 0 0, Call 0 ''initialize'', Call 0 ''shutdown'',
          Notify 0 ''exit'' None, SendSignal 0, ForceExit 0]
   \<and> servers_in_shutdown (exit_cb True 0
        (shutdown_cb False 0 (stop_process 0 (start_lsp_server True 0 fresh_world))))
       = []
   \<and> effects (exit_cb False 0
        (shutdown_cb False 0 (stop_process 0 (start_lsp_server True 0 fresh_world))))
       = [Spawn 0 True, WaitAsync 0 0, Call 0 ''initialize'', Call 0 ''shutdown'',
          Notify 0 ''exit'' None]
   \<and> servers_in_shutdown (exit_cb False 0
        (shutdown_cb False 0 (stop_process 0 (start_lsp_server True 0 fresh_world))))
       = []"
proof -
  have p: "process (heap (start_lsp_server True 0 fresh_world) 0) = Some 0"
    by (simp add: start_lsp_server_def Let_def fresh_world_def lsp_server_new_def
        is_dead_def word_sless_alt perform_initialize_def set_server_def emit_def)
  have n: "0 \<notin> set (servers_in_shutdown (start_lsp_server True 0 fresh_world))"
    by (simp add: start_lsp_server_def Let_def fresh_world_def lsp_server_new_def
        is_dead_def word_sless_alt perform_initialize_def set_server_def emit_def)
  have e: "effects (start_lsp_server True 0 fresh_world)
             = [Spawn 0 True, WaitAsync 0 0, Call 0 ''initialize'']"
    by (simp add: start_lsp_server_def Let_def fresh_world_def lsp_server_new_def
        is_dead_def word_sless_alt perform_initialize_def set_server_def emit_def)
  have d: "servers_in_shutdown (start_lsp_server True 0 fresh_world) = []"
    by (simp add: start_lsp_server_def Let_def fresh_world_def lsp_server_new_def
        is_dead_def word_sless_alt perform_initialize_def set_server_def emit_def)
  show ?thesis
    using p n e d
      two_phase_stop [OF p n, of True True "stop_process 0 (start_lsp_server True 0 fresh_world)"]
      two_phase_stop [OF p n, of False True "stop_process 0 (start_lsp_server True 0 fresh_world)"]
      two_phase_stop [OF p n, of False False "stop_process 0 (start_lsp_server True 0 fresh_world)"]
    by (simp add: Let_def)
qed

subsection \<open>Starting, restarting and the crash ceiling\<close>

lemma sint_succ:
  "sint (x::32 word) < 2147483647 \<Longrightarrow> sint (x + 1) = sint x + 1"
proof -
  assume a: "sint x < 2147483647"
  have "- (2^31) \<le> sint x" using sint_ge [of x] by simp
  with a show ?thesis
    by (simp add: sint_word_add signed_take_bit_int_eq_self)
qed

lemma start_restarts:
  "restarts (heap (start_lsp_server spawn_ok s w) s) = restarts (heap w s) + 1"
  by (simp add: start_lsp_server_def Let_def perform_initialize_def)

lemma start_effects:
  "effects (start_lsp_server spawn_ok s w) = effects w @
     (if 5 <s restarts (heap w s) + 1 then [Msgbox s]
      else if spawn_ok then [Spawn s True, WaitAsync (next_proc w) s, Call s ''initialize'']
      else [Spawn s False])"
  by (simp add: start_lsp_server_def Let_def perform_initialize_def is_dead_def set_server_def emit_def)

lemma start_lsp_servers [simp]:
  "lsp_servers (start_lsp_server spawn_ok s w) = lsp_servers w"
  by (simp add: start_lsp_server_def Let_def perform_initialize_def set_server_def emit_def)

lemma initialize_cb_error_slot:
  "lsp_servers (initialize_cb ed spawn_ok response True s w)
     = map_option (\<lambda>servers. servers[filetype (heap w s) := next_srv w]) (lsp_servers w)"
  by (simp add: initialize_cb_def Let_def lsp_server_init_def stop_process_def
      lsp_server_new_def set_server_def emit_def)

lemma initialize_cb_error_restarts:
  "restarts (heap (initialize_cb ed spawn_ok response True s w) (next_srv w))
     = restarts (heap w s) + 1"
  by (simp add: initialize_cb_def Let_def lsp_server_init_def stop_process_def start_restarts
      set_server_def emit_def)

lemma process_stopped_slot:
  "process (heap w s) = Some proc \<Longrightarrow>
   lsp_servers (process_stopped ed spawn_ok proc (Some s) w)
     = map_option (\<lambda>servers. servers[filetype (heap w s) := next_srv w]) (lsp_servers w)"
  by (simp add: process_stopped_def Let_def lsp_server_init_def free_server_def
      lsp_server_new_def set_server_def emit_def)

lemma process_stopped_restarts:
  "process (heap w s) = Some proc \<Longrightarrow>
   restarts (heap (process_stopped ed spawn_ok proc (Some s) w) (next_srv w))
     = restarts (heap w s) + 1"
  by (simp add: process_stopped_def Let_def lsp_server_init_def free_server_def start_restarts
      set_server_def emit_def)



lemma failed_initialize_step:
  assumes "lsp_servers w = Some servers" and "filetype (heap w s) = ft"
  shows "lsp_servers (initialize_cb ed True response True s w) = Some (servers[ft := next_srv w])"
    and "next_srv (initialize_cb ed True response True s w) = Suc (next_srv w)"
    and "filetype (heap (initialize_cb ed True response True s w) (next_srv w)) = ft"
    and "restarts (heap (initialize_cb ed True response True s w) (next_srv w))
           = restarts (heap w s) + 1"
    and "referenced (heap (initialize_cb ed True response True s w) (next_srv w)) = None"
    and "process (heap (initialize_cb ed True response True s w) (next_srv w))
           = (if 5 <s restarts (heap w s) + 1 then None else Some (next_proc w))"
    and "filter is_spawn (effects (initialize_cb ed True response True s w))
           = filter is_spawn (effects w)
             @ (if 5 <s restarts (heap w s) + 1 then [] else [Spawn (next_srv w) True])"
    and "filter is_msgbox (effects (initialize_cb ed True response True s w))
           = filter is_msgbox (effects w)
             @ (if 5 <s restarts (heap w s) + 1 then [Msgbox (next_srv w)] else [])"
  using assms
  by (simp_all add: initialize_cb_def Let_def lsp_server_init_def stop_process_def
      start_lsp_server_def perform_initialize_def lsp_server_new_def is_dead_def
      set_server_def emit_def)

lemma crash1_facts:
  "lsp_servers crash1 = Some [0]" "next_srv crash1 = 1" "filetype (heap crash1 0) = 0"
  "restarts (heap crash1 0) = 1" "filter is_spawn (effects crash1) = [Spawn 0 True]"
  "filter is_msgbox (effects crash1) = []"
  by (simp_all add: crash1_def lsp_server_get_for_ft_def server_get_or_start_for_ft_def Let_def
      start_lsp_server_def perform_initialize_def lsp_server_new_def set_server_def emit_def
      is_dead_def word_sless_alt fresh_world_def example_editor_def example_config_def
      g_strstrip_def is_space_def EMPTY_def)

lemma crash2_facts:
  "lsp_servers crash2 = Some [1]" "next_srv crash2 = 2" "filetype (heap crash2 1) = 0"
  "restarts (heap crash2 1) = 2"
  "filter is_spawn (effects crash2) = [Spawn 0 True, Spawn 1 True]"
  "filter is_msgbox (effects crash2) = []"
  unfolding crash2_def
  using failed_initialize_step [OF crash1_facts(1) crash1_facts(3), of example_editor GNull]
    crash1_facts
  by (simp_all add: word_sless_alt)


lemma crash3_facts:
  "lsp_servers crash3 = Some [2]" "next_srv crash3 = 3" "filetype (heap crash3 2) = 0"
  "restarts (heap crash3 2) = 3"
  "filter is_spawn (effects crash3) = [Spawn 0 True, Spawn 1 True, Spawn 2 True]"
  "filter is_msgbox (effects crash3) = []"
  unfolding crash3_def
  using failed_initialize_step [OF crash2_facts(1) crash2_facts(3), of example_editor GNull]
    crash2_facts
  by (simp_all add: word_sless_alt)

lemma crash4_facts:
  "lsp_servers crash4 = Some [3]" "next_srv crash4 = 4" "filetype (heap crash4 3) = 0"
  "restarts (heap crash4 3) = 4"
  "filter is_spawn (effects crash4) = [Spawn 0 True, Spawn 1 True, Spawn 2 True, Spawn 3 True]"
  "filter is_msgbox (effects crash4) = []"
  unfolding crash4_def
  using failed_initialize_step [OF crash3_facts(1) crash3_facts(3), of example_editor GNull]
    crash3_facts
  by (simp_all add: word_sless_alt)

lemma crash5_facts:
  "lsp_servers crash5 = Some [4]" "next_srv crash5 = 5" "filetype (heap crash5 4) = 0"
  "restarts (heap crash5 4) = 5"
  "filter is_spawn (effects crash5) = [Spawn 0 True, Spawn 1 True, Spawn 2 True, Spawn 3 True, Spawn 4 True]"
  "filter is_msgbox (effects crash5) = []"
  unfolding crash5_def
  using failed_initialize_step [OF crash4_facts(1) crash4_facts(3), of example_editor GNull]
    crash4_facts
  by (simp_all add: word_sless_alt)

lemma crash6_facts:
  "lsp_servers crash6 = Some [5]" "restarts (heap crash6 5) = 6"
  "referenced (heap crash6 5) = None" "process (heap crash6 5) = None"
  "filter is_spawn (effects crash6)
     = [Spawn 0 True, Spawn 1 True, Spawn 2 True, Spawn 3 True, Spawn 4 True]"
  "filter is_msgbox (effects crash6) = [Msgbox 5]"
  unfolding crash6_def
  using failed_initialize_step [OF crash5_facts(1) crash5_facts(3), of example_editor GNull]
    crash5_facts
  by (simp_all add: word_sless_alt)


lemma dead_after_increment:
  "is_dead srv \<Longrightarrow> sint (restarts srv) < 2147483647 \<Longrightarrow> 5 <s restarts srv + 1"
  by (simp add: is_dead_def word_sless_alt sint_succ)










text \<open>
  What \<^verbatim>\<open>start_lsp_server\<close> and the two replacing callbacks do to the counter. Every
  invocation of \<^verbatim>\<open>start_lsp_server\<close> adds one to the restart counter of its server
  before anything else: whether it then gives up, fails to spawn or spawns, the counter
  is one higher, so a failed spawn counts like any other start. The session that
  \<^verbatim>\<open>initialize_cb\<close> (after a failed initialize) or \<^verbatim>\<open>process_stopped\<close> puts into the
  slot has the counter of the server the callback was called for, plus one. The
  statements about the value as a signed number assume the counter is below
  \<^verbatim>\<open>INT_MAX\<close>, where the increment does not overflow.
\<close>

lemma start_counts_every_invocation:
  "restarts (heap (start_lsp_server spawn_ok s w) s) = restarts (heap w s) + 1
   \<and> effects (start_lsp_server spawn_ok s w) = effects w @
        (if 5 <s restarts (heap w s) + 1 then [Msgbox s]
         else if spawn_ok then [Spawn s True, WaitAsync (next_proc w) s, Call s ''initialize'']
         else [Spawn s False])
   \<and> (sint (restarts (heap w s)) < 2147483647 \<longrightarrow>
        sint (restarts (heap (start_lsp_server spawn_ok s w) s)) = sint (restarts (heap w s)) + 1)
   \<and> (let w' = initialize_cb ed spawn_ok response True s w
       in lsp_servers w'
            = map_option (\<lambda>servers. servers[filetype (heap w s) := next_srv w]) (lsp_servers w)
        \<and> restarts (heap w' (next_srv w)) = restarts (heap w s) + 1
        \<and> (sint (restarts (heap w s)) < 2147483647 \<longrightarrow>
             sint (restarts (heap w s)) \<le> sint (restarts (heap w' (next_srv w)))))
   \<and> (process (heap w s) = Some proc \<longrightarrow>
       (let w' = process_stopped ed spawn_ok proc (Some s) w
        in lsp_servers w'
             = map_option (\<lambda>servers. servers[filetype (heap w s) := next_srv w]) (lsp_servers w)
         \<and> restarts (heap w' (next_srv w)) = restarts (heap w s) + 1
         \<and> (sint (restarts (heap w s)) < 2147483647 \<longrightarrow>
              sint (restarts (heap w s)) \<le> sint (restarts (heap w' (next_srv w))))))"
  by (simp add: Let_def start_restarts start_effects initialize_cb_error_slot
      initialize_cb_error_restarts process_stopped_slot process_stopped_restarts sint_succ)


text \<open>
  The same on the small configuration: a start whose spawn fails, and the two
  replacements of server 0 after its first start.
\<close>

lemma start_counts_every_invocation_example:
  "(let w1 = start_lsp_server False 0 fresh_world;
        w2 = initialize_cb example_editor True GNull True 0 crash1;
        w3 = process_stopped example_editor True 0 (Some 0) crash1
    in sint (restarts (heap fresh_world 0)) < 2147483647
     \<and> restarts (heap fresh_world 0) = 0
     \<and> restarts (heap w1 0) = 1
     \<and> sint (restarts (heap w1 0)) = 1
     \<and> effects w1 = [Spawn 0 False]
     \<and> sint (restarts (heap crash1 0)) < 2147483647
     \<and> process (heap crash1 0) = Some 0
     \<and> restarts (heap crash1 0) = 1
     \<and> lsp_servers w2 = Some [1]
     \<and> restarts (heap w2 1) = 2
     \<and> lsp_servers w3 = Some [1]
     \<and> restarts (heap w3 1) = 2)"
proof -
  have a: "restarts (heap fresh_world 0) = 0" "effects fresh_world = []"
    by (simp_all add: fresh_world_def lsp_server_new_def)
  have b: "process (heap crash1 0) = Some 0"
    by (simp add: crash1_def lsp_server_get_for_ft_def server_get_or_start_for_ft_def Let_def
      start_lsp_server_def perform_initialize_def lsp_server_new_def set_server_def emit_def
      is_dead_def word_sless_alt fresh_world_def example_editor_def example_config_def
      g_strstrip_def is_space_def EMPTY_def)
  show ?thesis
    using start_counts_every_invocation [of False 0 fresh_world example_editor GNull 0]
      start_counts_every_invocation [of True 0 crash1 example_editor GNull 0]
      a b crash1_facts
    by (simp add: Let_def word_sless_alt)
qed

lemma replaced_keeps_others:
  "x \<noteq> next_srv w \<Longrightarrow>
   process (heap (initialize_cb ed spawn_ok response True s w) x) = process (heap w x)
   \<and> filetype (heap (initialize_cb ed spawn_ok response True s w) x) = filetype (heap w x)
   \<and> restarts (heap (initialize_cb ed spawn_ok response True s w) x) = restarts (heap w x)"
  by (simp add: initialize_cb_def Let_def lsp_server_init_def stop_process_def
      start_lsp_server_def perform_initialize_def set_server_def emit_def)

lemma crash1_process: "process (heap crash1 0) = Some 0"
  by (simp add: crash1_def lsp_server_get_for_ft_def server_get_or_start_for_ft_def Let_def
      start_lsp_server_def perform_initialize_def lsp_server_new_def set_server_def emit_def
      is_dead_def word_sless_alt fresh_world_def example_editor_def example_config_def
      g_strstrip_def is_space_def EMPTY_def)

lemma replaced_server_0:
  "process (heap crash3 0) = Some 0 \<and> filetype (heap crash3 0) = 0 \<and> restarts (heap crash3 0) = 1"
  "process (heap crash6 0) = Some 0 \<and> filetype (heap crash6 0) = 0 \<and> restarts (heap crash6 0) = 1"
proof -
  have c2: "process (heap crash2 0) = Some 0 \<and> filetype (heap crash2 0) = 0 \<and> restarts (heap crash2 0) = 1"
    unfolding crash2_def
    using replaced_keeps_others [of 0 crash1 example_editor True GNull 0] crash1_facts crash1_process
    by simp
  show c3: "process (heap crash3 0) = Some 0 \<and> filetype (heap crash3 0) = 0 \<and> restarts (heap crash3 0) = 1"
    unfolding crash3_def
    using replaced_keeps_others [of 0 crash2 example_editor True GNull 1] crash2_facts c2
    by simp
  have c4: "process (heap crash4 0) = Some 0 \<and> filetype (heap crash4 0) = 0 \<and> restarts (heap crash4 0) = 1"
    unfolding crash4_def
    using replaced_keeps_others [of 0 crash3 example_editor True GNull 2] crash3_facts c3
    by simp
  have c5: "process (heap crash5 0) = Some 0 \<and> filetype (heap crash5 0) = 0 \<and> restarts (heap crash5 0) = 1"
    unfolding crash5_def
    using replaced_keeps_others [of 0 crash4 example_editor True GNull 3] crash4_facts c4
    by simp
  show "process (heap crash6 0) = Some 0 \<and> filetype (heap crash6 0) = 0 \<and> restarts (heap crash6 0) = 1"
    unfolding crash6_def
    using replaced_keeps_others [of 0 crash5 example_editor True GNull 4] crash5_facts c5
    by simp
qed

lemma process_stopped_spawn:
  "process (heap w s) = Some proc \<Longrightarrow>
   filter is_spawn (effects (process_stopped ed True proc (Some s) w))
     = filter is_spawn (effects w)
       @ (if 5 <s restarts (heap w s) + 1 then [] else [Spawn (next_srv w) True])"
  by (simp add: process_stopped_def Let_def lsp_server_init_def free_server_def
      start_lsp_server_def perform_initialize_def lsp_server_new_def is_dead_def
      set_server_def emit_def)

lemma failed_initialize_allocated:
  "freed (initialize_cb ed spawn_ok response True s w) = freed w
   \<and> servers_in_shutdown (initialize_cb ed spawn_ok response True s w)
       = servers_in_shutdown w @ [s]"
  by (simp add: initialize_cb_def Let_def lsp_server_init_def stop_process_def
      start_lsp_server_def perform_initialize_def set_server_def emit_def)

lemma crash1_allocated:
  "freed crash1 = {} \<and> servers_in_shutdown crash1 = []"
  by (simp add: crash1_def lsp_server_get_for_ft_def server_get_or_start_for_ft_def Let_def
      start_lsp_server_def perform_initialize_def lsp_server_new_def set_server_def emit_def
      is_dead_def word_sless_alt fresh_world_def example_editor_def example_config_def
      g_strstrip_def is_space_def EMPTY_def)

lemma replaced_still_allocated:
  "freed crash3 = {} \<and> servers_in_shutdown crash3 = [0, 1]"
  "freed crash6 = {} \<and> servers_in_shutdown crash6 = [0, 1, 2, 3, 4]"
proof -
  show "freed crash3 = {} \<and> servers_in_shutdown crash3 = [0, 1]"
    unfolding crash3_def crash2_def
    using crash1_allocated by (simp add: failed_initialize_allocated)
  show "freed crash6 = {} \<and> servers_in_shutdown crash6 = [0, 1, 2, 3, 4]"
    unfolding crash6_def crash5_def crash4_def crash3_def crash2_def
    using crash1_allocated by (simp add: failed_initialize_allocated)
qed

text \<open>
  Claim C10 says that the restart counter never decreases along the replacements of the
  session of one language. \<^verbatim>\<open>stop_process\<close> leaves \<^verbatim>\<open>s->process\<close> set, so
  \<^verbatim>\<open>process_stopped\<close> still accepts the exit of the process of a server that
  \<^verbatim>\<open>initialize_cb\<close> has replaced. After two failed initializes the slot of file type 0
  holds server 2 with counter 3, and the replaced server 0 is still allocated: it waits in
  \<^verbatim>\<open>servers_in_shutdown\<close> for the answer to its shutdown request. The exit of
  process 0, which belongs to server 0, puts server 3 with counter 2 in the slot. After
  five failures the slot holds the dead server 5 with counter 6; the same exit replaces
  it by server 6 with counter 2, which is not dead and is spawned.
\<close>

theorem restart_counter_decreases:
  "lsp_servers crash3 = Some [2]
   \<and> restarts (heap crash3 2) = 3
   \<and> process (heap crash3 0) = Some 0
   \<and> freed crash3 = {} \<and> servers_in_shutdown crash3 = [0, 1]
   \<and> lsp_servers (process_stopped example_editor True 0 (Some 0) crash3) = Some [3]
   \<and> restarts (heap (process_stopped example_editor True 0 (Some 0) crash3) 3) = 2
   \<and> lsp_servers crash6 = Some [5]
   \<and> restarts (heap crash6 5) = 6
   \<and> is_dead (heap crash6 5)
   \<and> process (heap crash6 0) = Some 0
   \<and> freed crash6 = {} \<and> servers_in_shutdown crash6 = [0, 1, 2, 3, 4]
   \<and> lsp_servers (process_stopped example_editor True 0 (Some 0) crash6) = Some [6]
   \<and> restarts (heap (process_stopped example_editor True 0 (Some 0) crash6) 6) = 2
   \<and> \<not> is_dead (heap (process_stopped example_editor True 0 (Some 0) crash6) 6)
   \<and> filter is_spawn (effects (process_stopped example_editor True 0 (Some 0) crash6))
       = [Spawn 0 True, Spawn 1 True, Spawn 2 True, Spawn 3 True, Spawn 4 True, Spawn 6 True]"
proof -
  have p3: "process (heap crash3 0) = Some 0" and p6: "process (heap crash6 0) = Some 0"
    using replaced_server_0 by simp_all
  have n6: "next_srv crash6 = 6"
    unfolding crash6_def
    using failed_initialize_step [OF crash5_facts(1) crash5_facts(3), of example_editor GNull]
      crash5_facts
    by simp
  have a: "lsp_servers (process_stopped example_editor True 0 (Some 0) crash3) = Some [3]"
    "restarts (heap (process_stopped example_editor True 0 (Some 0) crash3) 3) = 2"
    using process_stopped_slot [OF p3, of example_editor True]
      process_stopped_restarts [OF p3, of example_editor True] replaced_server_0 crash3_facts
    by simp_all
  have b: "lsp_servers (process_stopped example_editor True 0 (Some 0) crash6) = Some [6]"
    "restarts (heap (process_stopped example_editor True 0 (Some 0) crash6) 6) = 2"
    "filter is_spawn (effects (process_stopped example_editor True 0 (Some 0) crash6))
       = [Spawn 0 True, Spawn 1 True, Spawn 2 True, Spawn 3 True, Spawn 4 True, Spawn 6 True]"
    using process_stopped_slot [OF p6, of example_editor True]
      process_stopped_restarts [OF p6, of example_editor True]
      process_stopped_spawn [OF p6, of example_editor]
      replaced_server_0 crash6_facts n6
    by (simp_all add: word_sless_alt)
  have d: "is_dead (heap crash6 5)"
    "\<not> is_dead (heap (process_stopped example_editor True 0 (Some 0) crash6) 6)"
    using crash6_facts b by (simp_all add: is_dead_def word_sless_alt)
  show ?thesis
    using p3 p6 a b d crash3_facts crash6_facts replaced_still_allocated by simp
qed

subsection \<open>Document synchronisation and version numbers\<close>

lemma next_version_path:
  "real_path doc = Some path \<Longrightarrow>
   get_next_doc_version_num doc w
     = (version_of w path + 1, w\<lparr>doc_version_nums := (doc_version_nums w)(path \<mapsto> version_of w path + 1)\<rparr>)"
  by (simp add: get_next_doc_version_num_def version_of_def Let_def)

lemma next_version_no_path:
  "real_path doc = None \<Longrightarrow> get_next_doc_version_num doc w = (0, w)"
  by (simp add: get_next_doc_version_num_def)

lemma version_of_next:
  "version_of (snd (get_next_doc_version_num doc w)) path
     = (if real_path doc = Some path then version_of w path + 1 else version_of w path)"
  by (cases "real_path doc") (auto simp: next_version_path next_version_no_path version_of_def)

lemma did_change_path:
  "real_path doc = Some path \<Longrightarrow>
   lsp_sync_text_document_did_change server doc ps pe text w
     = emit [Notify server ''textDocument/didChange''
               (Some (did_change_message doc (version_of w path + 1)
                  (if srv_use_incremental_sync (heap w server)
                   then incremental_change ps pe text else full_change doc)))]
         (w\<lparr>doc_version_nums := (doc_version_nums w)(path \<mapsto> version_of w path + 1)\<rparr>)"
  by (simp add: lsp_sync_text_document_did_change_def next_version_path Let_def)

lemma version_of_did_change:
  "version_of (lsp_sync_text_document_did_change server doc ps pe text w) path
     = (if real_path doc = Some path then version_of w path + 1 else version_of w path)"
  using version_of_next [of doc w path]
  by (cases "get_next_doc_version_num doc w")
     (simp add: lsp_sync_text_document_did_change_def Let_def version_of_def emit_def)

lemma version_of_did_open:
  "version_of (lsp_sync_text_document_did_open server doc w) path
     = (if real_path doc = Some path \<and> doc_ptr doc \<notin> open_docs w
        then version_of w path + 1 else version_of w path)"
proof (cases "real_path doc")
  case None
  then show ?thesis
    by (simp add: lsp_sync_text_document_did_open_def lsp_sync_is_document_open_def Let_def
        next_version_no_path version_of_def emit_def)
next
  case (Some p)
  then show ?thesis
    by (simp add: lsp_sync_text_document_did_open_def lsp_sync_is_document_open_def Let_def
        next_version_path version_of_def emit_def)
qed

lemma version_of_other [simp]:
  "version_of (lsp_sync_text_document_did_close server doc w) path = version_of w path"
  "version_of (lsp_sync_text_document_did_save server doc w) path = version_of w path"
  "version_of (lsp_sync_init w) path = version_of w path"
  by (simp_all add: lsp_sync_text_document_did_close_def lsp_sync_text_document_did_save_def
      lsp_sync_init_def version_of_def emit_def)

lemma sync_call_version:
  "\<exists>m\<le>1. version_of (do_sync_call c w) path = version_of w path + of_nat m"
proof (cases c)
  case (DidOpen s d)
  show ?thesis
  proof (cases "real_path d = Some path \<and> doc_ptr d \<notin> open_docs w")
    case True
    then have "version_of (do_sync_call c w) path = version_of w path + of_nat 1"
      by (simp add: DidOpen version_of_did_open)
    then show ?thesis by blast
  next
    case False
    then have "version_of (do_sync_call c w) path = version_of w path + of_nat 0"
      by (auto simp add: DidOpen version_of_did_open)
    then show ?thesis by blast
  qed
next
  case (DidChange s d ps pe t)
  show ?thesis
  proof (cases "real_path d = Some path")
    case True
    then have "version_of (do_sync_call c w) path = version_of w path + of_nat 1"
      by (simp add: DidChange version_of_did_change)
    then show ?thesis by blast
  next
    case False
    then have "version_of (do_sync_call c w) path = version_of w path + of_nat 0"
      by (simp add: DidChange version_of_did_change)
    then show ?thesis by blast
  qed
next
  case (DidClose s d)
  then have "version_of (do_sync_call c w) path = version_of w path + of_nat 0" by simp
  then show ?thesis by blast
next
  case (DidSave s d)
  then have "version_of (do_sync_call c w) path = version_of w path + of_nat 0" by simp
  then show ?thesis by blast
next
  case SyncInit
  then have "version_of (do_sync_call c w) path = version_of w path + of_nat 0" by simp
  then show ?thesis by blast
qed

lemma run_sync_version:
  "\<exists>m\<le>length calls. version_of (run_sync calls w) path = version_of w path + of_nat m"
proof (induction calls arbitrary: w)
  case Nil
  have "version_of (run_sync [] w) path = version_of w path + of_nat 0"
    by (simp add: run_sync_def)
  then show ?case by blast
next
  case (Cons c cs)
  obtain m1 where m1: "m1 \<le> 1" "version_of (do_sync_call c w) path = version_of w path + of_nat m1"
    using sync_call_version by blast
  obtain m2 where m2: "m2 \<le> length cs"
    "version_of (run_sync cs (do_sync_call c w)) path = version_of (do_sync_call c w) path + of_nat m2"
    using Cons.IH by blast
  have "version_of (run_sync (c # cs) w) path = version_of w path + of_nat (m1 + m2)"
    using m1 m2 by (simp add: run_sync_def)
  moreover have "m1 + m2 \<le> length (c # cs)" using m1 m2 by simp
  ultimately show ?case by blast
qed

lemma run_sync_changes:
  "real_path doc = Some path \<Longrightarrow>
   version_of (run_sync (replicate n (DidChange s doc ps pe t)) w) path = version_of w path + of_nat n"
proof (induction n arbitrary: w)
  case 0
  show ?case by (simp add: run_sync_def)
next
  case (Suc n)
  have "run_sync (replicate (Suc n) (DidChange s doc ps pe t)) w
      = run_sync (replicate n (DidChange s doc ps pe t)) (lsp_sync_text_document_did_change s doc ps pe t w)"
    by (simp add: run_sync_def)
  with Suc show ?case
    by (simp add: version_of_did_change)
qed


lemma heap_sync [simp]:
  "heap (lsp_sync_text_document_did_change server doc ps pe text w) = heap w"
  "heap (lsp_sync_text_document_did_close server doc w) = heap w"
  "heap (lsp_sync_text_document_did_save server doc w) = heap w"
  "heap (lsp_sync_init w) = heap w"
  by (simp_all add: lsp_sync_text_document_did_change_def lsp_sync_text_document_did_close_def
      lsp_sync_text_document_did_save_def lsp_sync_init_def get_next_doc_version_num_def
      Let_def split: option.splits)

lemma heap_do_sync_call [simp]: "heap (do_sync_call c w) = heap w"
  by (cases c) simp_all

lemma heap_run_sync [simp]: "heap (run_sync calls w) = heap w"
  unfolding run_sync_def by (induction calls arbitrary: w) simp_all

lemma unat_succ:
  "(x::32 word) \<noteq> 4294967295 \<Longrightarrow> unat (x + 1) = unat x + 1"
proof -
  assume a: "x \<noteq> 4294967295"
  have "unat x \<noteq> unat (4294967295 :: 32 word)"
    using a by (simp add: word_unat_eq_iff)
  moreover have "unat x < 2 ^ LENGTH(32)"
    by (rule unsigned_less)
  ultimately have "unat x + 1 < 2 ^ 32"
    by simp
  then show ?thesis
    by (simp add: unat_word_ariths)
qed

lemma no_repeat_within:
  assumes "real_path doc' = Some path" and "length calls < 4294967295"
  shows "version_of (lsp_sync_text_document_did_change server' doc' ps' pe' text'
                       (run_sync calls w')) path \<noteq> version_of w' path"
proof -
  obtain m where m: "m \<le> length calls"
    "version_of (run_sync calls w') path = version_of w' path + of_nat m"
    using run_sync_version by blast
  have "version_of (lsp_sync_text_document_did_change server' doc' ps' pe' text'
                       (run_sync calls w')) path = version_of w' path + of_nat (Suc m)"
    using assms(1) m(2) by (simp add: version_of_did_change)
  moreover have "(of_nat (Suc m) :: 32 word) \<noteq> 0"
    using m(1) assms(2) by (intro of_nat_neq_0) simp_all
  ultimately show ?thesis by simp
qed

text \<open>
  Claim C2 says that the version of a path never repeats within one editor run. The
  counter is a \<^verbatim>\<open>guint\<close>: after the first change of \<^verbatim>\<open>/a.c\<close> (version 1) and
  \<^verbatim>\<open>2^32 - 1\<close> further changes the counter is back at 0, and the next change
  sends version 1 again, in the same notification as the first.
\<close>

theorem version_repeats_counterexample:
  "(let w1 = lsp_sync_text_document_did_change 0 example_doc origin origin [] fresh_world;
        w2 = run_sync (replicate 4294967295 (DidChange 0 example_doc origin origin [])) w1;
        w3 = lsp_sync_text_document_did_change 0 example_doc origin origin [] w2
    in real_path example_doc = Some ''/a.c''
     \<and> version_of w1 ''/a.c'' = 1
     \<and> version_of w2 ''/a.c'' = 0
     \<and> version_of w3 ''/a.c'' = 1
     \<and> last (effects w3) = last (effects w1))"
proof -
  define w1 where "w1 = lsp_sync_text_document_did_change 0 example_doc origin origin [] fresh_world"
  define w2 where "w2 = run_sync (replicate 4294967295 (DidChange 0 example_doc origin origin [])) w1"
  define w3 where "w3 = lsp_sync_text_document_did_change 0 example_doc origin origin [] w2"
  have p: "real_path example_doc = Some ''/a.c''"
    by (simp add: example_doc_def)
  have v0: "version_of fresh_world ''/a.c'' = 0"
    by (simp add: version_of_def fresh_world_def)
  have v1: "version_of w1 ''/a.c'' = 1"
    unfolding w1_def using p v0 by (simp add: version_of_did_change)
  have v2: "version_of w2 ''/a.c'' = 0"
    unfolding w2_def using run_sync_changes [OF p, of 4294967295 0 origin origin "[]" w1] v1
    by simp
  have v3: "version_of w3 ''/a.c'' = 1"
    unfolding w3_def using p v2 by (simp add: version_of_did_change)
  have h: "heap w2 = heap fresh_world"
    by (simp add: w2_def w1_def)
  have "last (effects w3) = last (effects w1)"
    unfolding w3_def w1_def using v0 v2 h
    by (simp add: did_change_path [OF p] emit_def)
  with p v1 v2 v3 show ?thesis
    by (simp add: Let_def w1_def w2_def w3_def)
qed

text \<open>
  Claim C2, as the code has it. For a document with a real path, every
  \<^verbatim>\<open>did_change\<close> adds 1 to the counter of the path (a 32-bit unsigned number,
  so modulo \<^verbatim>\<open>2^32\<close>; as a number it is the old value plus 1 unless the old value
  is \<^verbatim>\<open>2^32 - 1\<close>) and sends one didChange notification that carries the new
  value and exactly one content change: the given range and text when the server
  negotiated incremental sync, the whole text of the document and no range otherwise.
  The value is not seen again by a later \<^verbatim>\<open>did_change\<close> of the path as long as
  fewer than \<^verbatim>\<open>2^32 - 1\<close> calls of the interface lie between the two.
\<close>

theorem did_change_bumps_version:
  "real_path doc = Some path \<longrightarrow>
   (let w' = lsp_sync_text_document_did_change server doc pos_start pos_end text w;
        v = version_of w path + 1;
        change = (if srv_use_incremental_sync (heap w server)
                  then incremental_change pos_start pos_end text else full_change doc)
    in doc_version_nums w' = (doc_version_nums w)(path \<mapsto> v)
     \<and> (version_of w path \<noteq> 4294967295 \<longrightarrow> unat v = unat (version_of w path) + 1)
     \<and> effects w' = effects w @
          [Notify server ''textDocument/didChange'' (Some (did_change_message doc v change))]
     \<and> message_parse (did_change_message doc v change) [''textDocument'', ''version'']
          = Some (GInt32 v)
     \<and> message_parse (did_change_message doc v change) [''contentChanges'']
          = Some (GArray [change])
     \<and> (srv_use_incremental_sync (heap w server) \<longrightarrow>
          message_parse change [''range'', ''start''] =
            Some (GDict [(''line'', GInt32 (line pos_start)),
                         (''character'', GInt32 (character pos_start))])
        \<and> message_parse change [''range'', ''end''] =
            Some (GDict [(''line'', GInt32 (line pos_end)),
                         (''character'', GInt32 (character pos_end))])
        \<and> message_parse change [''text''] = Some (GString text))
     \<and> (\<not> srv_use_incremental_sync (heap w server) \<longrightarrow>
          change = GDict [(''text'', GString (sci_contents doc))])
     \<and> (real_path doc' = Some path \<and> length calls < 4294967295 \<longrightarrow>
          version_of (lsp_sync_text_document_did_change server' doc' pos_start' pos_end' text'
                        (run_sync calls w')) path \<noteq> v))"
proof (intro impI)
  assume p: "real_path doc = Some path"
  define w' where "w' = lsp_sync_text_document_did_change server doc pos_start pos_end text w"
  have v: "version_of w' path = version_of w path + 1"
    unfolding w'_def using p by (simp add: version_of_did_change)
  have norep: "real_path doc' = Some path \<and> length calls < 4294967295 \<longrightarrow>
          version_of (lsp_sync_text_document_did_change server' doc' pos_start' pos_end' text'
                        (run_sync calls w')) path \<noteq> version_of w path + 1"
    using no_repeat_within [of doc' path calls server' pos_start' pos_end' text' w'] v by simp
  have u: "version_of w path \<noteq> 4294967295 \<longrightarrow> unat (version_of w path + 1) = unat (version_of w path) + 1"
    by (simp add: unat_succ)
  show "(let w' = lsp_sync_text_document_did_change server doc pos_start pos_end text w;
        v = version_of w path + 1;
        change = (if srv_use_incremental_sync (heap w server)
                  then incremental_change pos_start pos_end text else full_change doc)
    in doc_version_nums w' = (doc_version_nums w)(path \<mapsto> v)
     \<and> (version_of w path \<noteq> 4294967295 \<longrightarrow> unat v = unat (version_of w path) + 1)
     \<and> effects w' = effects w @
          [Notify server ''textDocument/didChange'' (Some (did_change_message doc v change))]
     \<and> message_parse (did_change_message doc v change) [''textDocument'', ''version'']
          = Some (GInt32 v)
     \<and> message_parse (did_change_message doc v change) [''contentChanges'']
          = Some (GArray [change])
     \<and> (srv_use_incremental_sync (heap w server) \<longrightarrow>
          message_parse change [''range'', ''start''] =
            Some (GDict [(''line'', GInt32 (line pos_start)),
                         (''character'', GInt32 (character pos_start))])
        \<and> message_parse change [''range'', ''end''] =
            Some (GDict [(''line'', GInt32 (line pos_end)),
                         (''character'', GInt32 (character pos_end))])
        \<and> message_parse change [''text''] = Some (GString text))
     \<and> (\<not> srv_use_incremental_sync (heap w server) \<longrightarrow>
          change = GDict [(''text'', GString (sci_contents doc))])
     \<and> (real_path doc' = Some path \<and> length calls < 4294967295 \<longrightarrow>
          version_of (lsp_sync_text_document_did_change server' doc' pos_start' pos_end' text'
                        (run_sync calls w')) path \<noteq> v))"
    using norep u
    by (simp add: Let_def w'_def did_change_path [OF p] emit_def did_change_message_def
        incremental_change_def full_change_def)
qed


lemma incremental_world_facts:
  "srv_use_incremental_sync (heap incremental_world 0)"
  "doc_version_nums incremental_world = (\<lambda>path. None)"
  "effects incremental_world = [Notify 0 ''initialized'' None]"
  by (simp_all add: incremental_world_def initialize_cb_def Let_def example_editor_def
      fresh_world_def use_incremental_sync_def parse_get_int64_def set_server_def emit_def)

text \<open>
  Claim C2, run on the scenario of the specification: a change from (2,0) to (2,5)
  with text \<^verbatim>\<open>abc\<close>, once with incremental sync and once without.
\<close>

theorem did_change_bumps_version_witness:
  "real_path example_doc = Some ''/a.c''
   \<and> srv_use_incremental_sync (heap incremental_world 0)
   \<and> effects (lsp_sync_text_document_did_change 0 example_doc
                 \<lparr>line = 2, character = 0\<rparr> \<lparr>line = 2, character = 5\<rparr> ''abc'' incremental_world)
       = [Notify 0 ''initialized'' None,
          Notify 0 ''textDocument/didChange'' (Some (GDict
            [(''textDocument'', GDict [(''uri'', GString ''file:///a.c''), (''version'', GInt32 1)]),
             (''contentChanges'', GArray [GDict
                [(''range'', GDict
                    [(''start'', GDict [(''line'', GInt32 2), (''character'', GInt32 0)]),
                     (''end'', GDict [(''line'', GInt32 2), (''character'', GInt32 5)])]),
                 (''text'', GString ''abc'')]])]))]
   \<and> \<not> srv_use_incremental_sync (heap fresh_world 0)
   \<and> effects (lsp_sync_text_document_did_change 0 example_doc
                 \<lparr>line = 2, character = 0\<rparr> \<lparr>line = 2, character = 5\<rparr> ''abc'' fresh_world)
       = [Notify 0 ''textDocument/didChange'' (Some (GDict
            [(''textDocument'', GDict [(''uri'', GString ''file:///a.c''), (''version'', GInt32 1)]),
             (''contentChanges'', GArray [GDict [(''text'', GString ''int x;'')]])]))]
   \<and> version_of fresh_world ''/a.c'' \<noteq> 4294967295
   \<and> length [DidSave 0 example_doc, DidClose 0 example_doc] < 4294967295
   \<and> version_of (lsp_sync_text_document_did_change 0 example_doc origin origin []
        (run_sync [DidSave 0 example_doc, DidClose 0 example_doc]
           (lsp_sync_text_document_did_change 0 example_doc
                 \<lparr>line = 2, character = 0\<rparr> \<lparr>line = 2, character = 5\<rparr> ''abc'' fresh_world)))
        ''/a.c'' \<noteq> 1"
proof -
  have p: "real_path example_doc = Some ''/a.c''"
    by (simp add: example_doc_def)
  have f: "\<not> srv_use_incremental_sync (heap fresh_world 0)" "version_of fresh_world ''/a.c'' = 0"
    "effects fresh_world = []"
    by (simp_all add: fresh_world_def lsp_server_new_def version_of_def)
  have i: "version_of incremental_world ''/a.c'' = 0"
    by (simp add: version_of_def incremental_world_facts)
  show ?thesis
    using p f i incremental_world_facts
      did_change_bumps_version [of example_doc "''/a.c''" 0 "\<lparr>line = 2, character = 0\<rparr>"
        "\<lparr>line = 2, character = 5\<rparr>" "''abc''" incremental_world]
      did_change_bumps_version [of example_doc "''/a.c''" 0 "\<lparr>line = 2, character = 0\<rparr>"
        "\<lparr>line = 2, character = 5\<rparr>" "''abc''" fresh_world example_doc
        "[DidSave 0 example_doc, DidClose 0 example_doc]" 0 origin origin "[]"]
    by (simp add: Let_def did_change_message_def incremental_change_def full_change_def
        example_doc_def)
qed

lemma did_open_closed:
  "doc_ptr doc \<notin> open_docs w \<Longrightarrow>
   lsp_sync_text_document_did_open server doc w
     = emit [Notify server ''textDocument/didOpen''
               (Some (did_open_message doc
                  (case real_path doc of None \<Rightarrow> 0 | Some path \<Rightarrow> version_of w path + 1)))]
         (w\<lparr>open_docs := insert (doc_ptr doc) (open_docs w),
            doc_version_nums :=
              (case real_path doc of
                 None \<Rightarrow> doc_version_nums w
               | Some path \<Rightarrow> (doc_version_nums w)(path \<mapsto> version_of w path + 1))\<rparr>)"
  by (cases "real_path doc")
     (simp_all add: lsp_sync_text_document_did_open_def lsp_sync_is_document_open_def Let_def
       get_next_doc_version_num_def version_of_def)

lemma did_open_opens:
  "doc_ptr doc \<in> open_docs (lsp_sync_text_document_did_open server doc w)"
  by (cases "doc_ptr doc \<in> open_docs w")
     (simp_all add: did_open_closed emit_def,
      simp add: lsp_sync_text_document_did_open_def lsp_sync_is_document_open_def)

text \<open>
  Claim C4 speaks of a document that is open \<^emph>\<open>for this session\<close>. The set of open
  documents is keyed by the document alone: once the document has been opened for
  server 0, \<^verbatim>\<open>did_open\<close> for server 1 does nothing, although server 1 has never
  been sent a didOpen for it.
\<close>

theorem did_open_other_session_counterexample:
  "(let w1 = lsp_sync_text_document_did_open 0 example_doc fresh_world;
        w2 = lsp_sync_text_document_did_open 1 example_doc w1
    in filter (sent_to 0) (effects w1)
         = [Notify 0 ''textDocument/didOpen'' (Some (did_open_message example_doc 1))]
     \<and> filter (sent_to 1) (effects w1) = []
     \<and> w2 = w1
     \<and> filter (sent_to 1) (effects w2) = [])"
  by (simp add: Let_def lsp_sync_text_document_did_open_def lsp_sync_is_document_open_def
      get_next_doc_version_num_def fresh_world_def example_doc_def emit_def)

text \<open>
  Claim C4, as the code has it. \<^verbatim>\<open>did_open\<close> is idempotent per document: when the
  document is in the set of open documents (whichever server it was opened for) the call
  changes nothing and sends nothing; otherwise it adds the document to the set and sends
  exactly one didOpen to the given server, with the URI, the language id, the version
  and the full text. A second \<^verbatim>\<open>did_open\<close> of the same document, for any server,
  adds nothing to what the first one did.
\<close>

theorem did_open_once_per_document:
  "(doc_ptr doc \<in> open_docs w \<longrightarrow> lsp_sync_text_document_did_open server doc w = w)
   \<and> (doc_ptr doc \<notin> open_docs w \<longrightarrow>
       (let w' = lsp_sync_text_document_did_open server doc w;
            v = (case real_path doc of None \<Rightarrow> 0 | Some path \<Rightarrow> version_of w path + 1);
            msg = did_open_message doc v
        in open_docs w' = insert (doc_ptr doc) (open_docs w)
         \<and> effects w' = effects w @ [Notify server ''textDocument/didOpen'' (Some msg)]
         \<and> message_parse msg [''textDocument'', ''uri''] = Some (GString (doc_uri doc))
         \<and> message_parse msg [''textDocument'', ''languageId'']
              = Some (GString (lsp_lang_name doc))
         \<and> message_parse msg [''textDocument'', ''version''] = Some (GInt32 v)
         \<and> message_parse msg [''textDocument'', ''text''] = Some (GString (sci_contents doc))))
   \<and> lsp_sync_text_document_did_open server' doc (lsp_sync_text_document_did_open server doc w)
       = lsp_sync_text_document_did_open server doc w"
proof -
  have again: "lsp_sync_text_document_did_open server' doc (lsp_sync_text_document_did_open server doc w)
       = lsp_sync_text_document_did_open server doc w"
    using did_open_opens [of doc server w]
    by (simp add: lsp_sync_text_document_did_open_def [of server'] lsp_sync_is_document_open_def)
  show ?thesis
    using again
    by (simp add: Let_def did_open_closed emit_def did_open_message_def)
       (simp add: lsp_sync_text_document_did_open_def lsp_sync_is_document_open_def)
qed

text \<open>Claim C4, run on \<^verbatim>\<open>/a.c\<close>: opened once, and opened twice.\<close>

theorem did_open_once_per_document_witness:
  "doc_ptr example_doc \<notin> open_docs fresh_world
   \<and> effects (lsp_sync_text_document_did_open 0 example_doc fresh_world)
       = [Notify 0 ''textDocument/didOpen'' (Some (GDict [(''textDocument'', GDict
            [(''uri'', GString ''file:///a.c''), (''languageId'', GString ''c''),
             (''version'', GInt32 1), (''text'', GString ''int x;'')])]))]
   \<and> doc_ptr example_doc \<in> open_docs (lsp_sync_text_document_did_open 0 example_doc fresh_world)
   \<and> effects (lsp_sync_text_document_did_open 0 example_doc
                (lsp_sync_text_document_did_open 0 example_doc fresh_world))
       = [Notify 0 ''textDocument/didOpen'' (Some (GDict [(''textDocument'', GDict
            [(''uri'', GString ''file:///a.c''), (''languageId'', GString ''c''),
             (''version'', GInt32 1), (''text'', GString ''int x;'')])]))]"
proof -
  have a: "doc_ptr example_doc \<notin> open_docs fresh_world" "effects fresh_world = []"
    "version_of fresh_world ''/a.c'' = 0"
    by (simp_all add: fresh_world_def version_of_def)
  show ?thesis
    using a did_open_once_per_document [of example_doc fresh_world 0 0]
      did_open_once_per_document [of example_doc
        "lsp_sync_text_document_did_open 0 example_doc fresh_world" 0 0]
    by (simp add: Let_def did_open_message_def example_doc_def)
qed


lemma versions_start [simp]:
  "doc_version_nums (start_lsp_server spawn_ok s w) = doc_version_nums w"
  "open_docs (start_lsp_server spawn_ok s w) = open_docs w"
  by (simp_all add: start_lsp_server_def Let_def perform_initialize_def set_server_def emit_def)

lemma versions_restart:
  "doc_version_nums (process_stopped ed spawn_ok proc data w) = doc_version_nums w"
  "doc_version_nums (initialize_cb ed spawn_ok response True s w) = doc_version_nums w"
  "doc_version_nums (stop_process s w) = doc_version_nums w"
  "doc_version_nums (lsp_sync_init w) = doc_version_nums w"
  "doc_version_nums (lsp_sync_text_document_did_close server doc w) = doc_version_nums w"
  "doc_version_nums (lsp_sync_text_document_did_save server doc w) = doc_version_nums w"
  by (simp_all add: process_stopped_def initialize_cb_def Let_def lsp_server_init_def
      free_server_def stop_process_def set_server_def emit_def lsp_sync_init_def
      lsp_sync_text_document_did_close_def lsp_sync_text_document_did_save_def
      split: option.splits)

lemma open_docs_restart:
  "open_docs (process_stopped ed spawn_ok proc data w) = open_docs w"
  by (simp add: process_stopped_def Let_def lsp_server_init_def
      free_server_def set_server_def split: option.splits)

text \<open>
  Claim C5 says that after a server restart the first didOpen of a document carries
  version 1 again. Server 0 is running and \<^verbatim>\<open>/a.c\<close> is opened with version 1; the
  process ends and \<^verbatim>\<open>process_stopped\<close> replaces the server by server 1. Without
  \<^verbatim>\<open>lsp_sync_init\<close> the document still counts as open and \<^verbatim>\<open>did_open\<close> sends
  nothing; after \<^verbatim>\<open>lsp_sync_init\<close> the didOpen for server 1 carries version 2.
\<close>

theorem version_after_restart_counterexample:
  "(let w1 = lsp_sync_text_document_did_open 0 example_doc crash1;
        w2 = process_stopped example_editor True 0 (Some 0) w1;
        w3 = lsp_sync_text_document_did_open 1 example_doc (lsp_sync_init w2)
    in last (effects w1)
         = Notify 0 ''textDocument/didOpen'' (Some (did_open_message example_doc 1))
     \<and> lsp_servers w1 = Some [0]
     \<and> lsp_servers w2 = Some [1]
     \<and> lsp_sync_text_document_did_open 1 example_doc w2 = w2
     \<and> last (effects w3)
         = Notify 1 ''textDocument/didOpen'' (Some (did_open_message example_doc 2))
     \<and> message_parse (did_open_message example_doc 2) [''textDocument'', ''version'']
         = Some (GInt32 2))"
proof -
  define w1 where "w1 = lsp_sync_text_document_did_open 0 example_doc crash1"
  define w2 where "w2 = process_stopped example_editor True 0 (Some 0) w1"
  define w3 where "w3 = lsp_sync_text_document_did_open 1 example_doc (lsp_sync_init w2)"
  have c: "open_docs crash1 = {}" "doc_version_nums crash1 = (\<lambda>path. None)"
    "process (heap crash1 0) = Some 0"
    by (simp_all add: crash1_def lsp_server_get_for_ft_def server_get_or_start_for_ft_def Let_def
      start_lsp_server_def perform_initialize_def lsp_server_new_def set_server_def emit_def
      is_dead_def word_sless_alt fresh_world_def example_editor_def example_config_def
      g_strstrip_def is_space_def EMPTY_def)
  have p: "real_path example_doc = Some ''/a.c''" "doc_ptr example_doc = 0"
    by (simp_all add: example_doc_def)
  have closed: "doc_ptr example_doc \<notin> open_docs crash1"
    using c by simp
  have e1: "last (effects w1)
         = Notify 0 ''textDocument/didOpen'' (Some (did_open_message example_doc 1))"
    unfolding w1_def using c p by (simp add: did_open_closed [OF closed] emit_def version_of_def)
  have v1: "version_of w1 ''/a.c'' = 1" "doc_ptr example_doc \<in> open_docs w1"
    "process (heap w1 0) = Some 0" "lsp_servers w1 = Some [0]" "filetype (heap w1 0) = 0"
    "next_srv w1 = 1"
    unfolding w1_def using c p crash1_facts
    by (simp_all add: did_open_closed [OF closed] emit_def version_of_def)
  have v2: "version_of w2 ''/a.c'' = 1" "doc_ptr example_doc \<in> open_docs w2"
    unfolding w2_def using v1 by (simp_all add: version_of_def versions_restart open_docs_restart)
  have s2: "lsp_servers w2 = Some [1]"
    unfolding w2_def using v1
    by (simp add: process_stopped_slot [OF v1(3)])
  have noop: "lsp_sync_text_document_did_open 1 example_doc w2 = w2"
    using v2 by (simp add: lsp_sync_text_document_did_open_def lsp_sync_is_document_open_def)
  have closed3: "doc_ptr example_doc \<notin> open_docs (lsp_sync_init w2)"
    by (simp add: lsp_sync_init_def)
  have "version_of (lsp_sync_init w2) ''/a.c'' = 1"
    using v2 by simp
  then have e3: "last (effects w3)
         = Notify 1 ''textDocument/didOpen'' (Some (did_open_message example_doc 2))"
    unfolding w3_def using p by (simp add: did_open_closed [OF closed3] emit_def)
  show ?thesis
    using e1 v1(4) s2 noop e3
    by (simp add: Let_def w1_def w2_def w3_def did_open_message_def)
qed

text \<open>
  Claim C5, as the code has it. The table of version numbers belongs to the process, not
  to a server: \<^verbatim>\<open>lsp_sync_init\<close>, the replacement of a server after a failed
  initialize or a process exit, starting, stopping and didClose all leave it as it is.
  The didOpen of a document with a real path carries the counter of the path plus 1:
  1 when the path has not been seen in this editor run, the last value plus 1 (also
  after a restart) otherwise. A document without a real path is opened with version 0.
\<close>

theorem version_counter_persists:
  "doc_version_nums (lsp_sync_init w) = doc_version_nums w
   \<and> doc_version_nums (process_stopped ed spawn_ok proc data w) = doc_version_nums w
   \<and> doc_version_nums (initialize_cb ed spawn_ok response True s w) = doc_version_nums w
   \<and> doc_version_nums (start_lsp_server spawn_ok s w) = doc_version_nums w
   \<and> doc_version_nums (stop_process s w) = doc_version_nums w
   \<and> doc_version_nums (lsp_sync_text_document_did_close server doc w) = doc_version_nums w
   \<and> (doc_ptr doc \<notin> open_docs w \<longrightarrow>
        (let v = (case real_path doc of None \<Rightarrow> 0 | Some path \<Rightarrow> version_of w path + 1);
             w' = lsp_sync_text_document_did_open server doc w
         in effects w' = effects w @
               [Notify server ''textDocument/didOpen'' (Some (did_open_message doc v))]
          \<and> message_parse (did_open_message doc v) [''textDocument'', ''version'']
               = Some (GInt32 v)
          \<and> (real_path doc = Some path \<longrightarrow> version_of w' path = v)))
   \<and> (real_path doc = Some path \<and> doc_version_nums w path = None \<longrightarrow>
        version_of w path + 1 = 1)
   \<and> (real_path doc = Some path \<and> doc_version_nums w path = Some n \<longrightarrow>
        version_of w path + 1 = n + 1)"
  by (auto simp add: versions_restart Let_def did_open_closed emit_def did_open_message_def
      version_of_def)

text \<open>
  Claim C5, run on \<^verbatim>\<open>/a.c\<close>: version 1 at the first didOpen of the run, version 2
  at the first didOpen after the server was replaced.
\<close>

theorem version_counter_persists_witness:
  "(let w1 = lsp_sync_text_document_did_open 0 example_doc crash1;
        w2 = lsp_sync_init (process_stopped example_editor True 0 (Some 0) w1);
        w3 = lsp_sync_text_document_did_open 1 example_doc w2
    in doc_ptr example_doc \<notin> open_docs crash1
     \<and> real_path example_doc = Some ''/a.c''
     \<and> doc_version_nums crash1 ''/a.c'' = None
     \<and> effects w1 = effects crash1 @
          [Notify 0 ''textDocument/didOpen'' (Some (did_open_message example_doc 1))]
     \<and> doc_version_nums w1 ''/a.c'' = Some 1
     \<and> doc_ptr example_doc \<notin> open_docs w2
     \<and> doc_version_nums w2 ''/a.c'' = Some 1
     \<and> effects w3 = effects w2 @
          [Notify 1 ''textDocument/didOpen'' (Some (did_open_message example_doc 2))])"
proof -
  define w1 where "w1 = lsp_sync_text_document_did_open 0 example_doc crash1"
  define w2 where "w2 = lsp_sync_init (process_stopped example_editor True 0 (Some 0) w1)"
  have c: "open_docs crash1 = {}" "doc_version_nums crash1 = (\<lambda>path. None)"
    by (simp_all add: crash1_def lsp_server_get_for_ft_def server_get_or_start_for_ft_def Let_def
      start_lsp_server_def perform_initialize_def lsp_server_new_def set_server_def emit_def
      is_dead_def word_sless_alt fresh_world_def example_editor_def example_config_def
      g_strstrip_def is_space_def EMPTY_def)
  have p: "real_path example_doc = Some ''/a.c''"
    by (simp add: example_doc_def)
  have closed: "doc_ptr example_doc \<notin> open_docs crash1"
    using c by simp
  have t1: "doc_version_nums w1 ''/a.c'' = Some 1"
    unfolding w1_def using c p by (simp add: did_open_closed [OF closed] emit_def version_of_def)
  have closed2: "doc_ptr example_doc \<notin> open_docs w2"
    by (simp add: w2_def lsp_sync_init_def)
  have t2: "doc_version_nums w2 = doc_version_nums w1"
    using version_counter_persists [where w = "process_stopped example_editor True 0 (Some 0) w1"]
      version_counter_persists [where w = w1 and ed = example_editor and spawn_ok = True
        and proc = 0 and data = "Some 0"]
    by (simp add: w2_def)
  have "effects w1 = effects crash1 @
          [Notify 0 ''textDocument/didOpen'' (Some (did_open_message example_doc 1))]"
    using version_counter_persists [where w = crash1 and doc = example_doc and server = 0
        and path = "''/a.c''"] closed p c
    by (simp add: Let_def w1_def version_of_def)
  moreover have "effects (lsp_sync_text_document_did_open 1 example_doc w2) = effects w2 @
          [Notify 1 ''textDocument/didOpen'' (Some (did_open_message example_doc 2))]"
    using version_counter_persists [where w = w2 and doc = example_doc and server = 1
        and path = "''/a.c''"] closed2 p t1 t2
    by (simp add: Let_def version_of_def)
  ultimately show ?thesis
    using closed p c t1 t2 closed2
    by (simp add: Let_def w1_def w2_def)
qed

subsection \<open>Reference-language aliases\<close>

lemma aliased_first:
  assumes "aliased ed ft a b w" and "referenced (heap w a) = None" and "process (heap w b) \<noteq> None"
  shows "server_get_or_start_for_ft ed spawn_ok (Some ft) True w
           = (if lsp_disabled_for_project ed then (None, w)
              else (Some b, set_server a ((heap w a)\<lparr>referenced := Some b\<rparr>) w))"
  using assms
  by (auto simp add: aliased_def server_get_or_start_for_ft_def Let_def set_server_def
      split: option.splits)

lemma aliased_cached:
  assumes "aliased ed ft a b w" and "referenced (heap w a) = Some b" and "process (heap w b) \<noteq> None"
  shows "server_get_or_start_for_ft ed spawn_ok (Some ft) launch w
           = (if lsp_disabled_for_project ed \<or> startup_shutdown (heap w b) then None else Some b, w)"
  using assms
  by (auto simp add: aliased_def server_get_or_start_for_ft_def Let_def set_server_def
      split: option.splits)


lemma start_other_server:
  "s \<noteq> a \<Longrightarrow> heap (start_lsp_server spawn_ok s w) a = heap w a"
  by (simp add: start_lsp_server_def Let_def perform_initialize_def)

lemma start_spawn_of_other:
  "s \<noteq> a \<Longrightarrow> filter (spawn_of a) (effects (start_lsp_server spawn_ok s w))
                = filter (spawn_of a) (effects w)"
  by (simp add: start_effects)

lemma start_ref_lang:
  "ref_lang (config (heap (start_lsp_server spawn_ok s w) x)) = ref_lang (config (heap w x))"
  by (simp add: start_lsp_server_def Let_def perform_initialize_def)

lemma aliased_step:
  assumes "aliased ed ft a b w"
  shows "aliased ed ft a b (snd (server_get_or_start_for_ft ed spawn_ok (Some ft) launch w))
       \<and> (fst (server_get_or_start_for_ft ed spawn_ok (Some ft) launch w) = None
          \<or> fst (server_get_or_start_for_ft ed spawn_ok (Some ft) launch w) = Some b)
       \<and> filter (spawn_of a)
            (effects (snd (server_get_or_start_for_ft ed spawn_ok (Some ft) launch w)))
          = filter (spawn_of a) (effects w)
       \<and> heap (snd (server_get_or_start_for_ft ed spawn_ok (Some ft) launch w)) a
          = (heap w a)\<lparr>referenced :=
               referenced (heap (snd (server_get_or_start_for_ft ed spawn_ok (Some ft) launch w)) a)\<rparr>"
proof -
  obtain servers where sv: "lsp_servers w = Some servers"
    using assms by (auto simp: aliased_def split: option.splits)
  obtain name ft2 where
    n: "ref_lang (config (heap w a)) = Some name" "filetypes_lookup_by_name ed name = Some ft2"
       "ft2 < length servers" "servers ! ft2 = b"
    using assms sv by (auto simp: aliased_def split: option.splits)
  have base: "ft < length servers" "servers ! ft = a" "a \<noteq> b" "process (heap w a) = None"
    "\<not> startup_shutdown (heap w a)" "\<not> not_used (heap w a)" "\<not> is_dead (heap w a)"
    "ref_lang (config (heap w b)) = None"
    using assms sv by (auto simp: aliased_def split: option.splits)
  have r: "referenced (heap w a) = None \<or> referenced (heap w a) = Some b"
    using assms sv by (auto simp: aliased_def split: option.splits)
  from r show ?thesis
  proof
    assume r0: "referenced (heap w a) = None"
    show ?thesis
      using sv n base r0
      by (simp add: aliased_def server_get_or_start_for_ft_def Let_def set_server_def
          start_other_server start_spawn_of_other start_ref_lang EMPTY_def is_dead_def
          split: option.splits)
  next
    assume r1: "referenced (heap w a) = Some b"
    show ?thesis
      using sv n base r1
      by (simp add: aliased_def server_get_or_start_for_ft_def Let_def set_server_def
          start_other_server start_spawn_of_other start_ref_lang EMPTY_def is_dead_def
          split: option.splits)
  qed
qed


lemma aliased_resolve:
  "aliased ed ft a b w \<Longrightarrow>
   aliased ed ft a b (foldl (\<lambda>w' call. resolve ed ft call w') w calls)
   \<and> filter (spawn_of a) (effects (foldl (\<lambda>w' call. resolve ed ft call w') w calls))
       = filter (spawn_of a) (effects w)"
proof (induction calls arbitrary: w)
  case Nil
  then show ?case by simp
next
  case (Cons c cs)
  have step: "aliased ed ft a b (resolve ed ft c w)"
    "filter (spawn_of a) (effects (resolve ed ft c w)) = filter (spawn_of a) (effects w)"
    using aliased_step [OF Cons.prems, of "fst c" "snd c"] by (simp_all add: resolve_def)
  from Cons.IH [OF step(1)] step(2) show ?case by simp
qed

lemma unknown_alias_not_used:
  assumes "lsp_servers w = Some servers" and "ft < length servers" and "servers ! ft = a"
    and "\<not> lsp_disabled_for_project ed"
    and "process (heap w a) = None" and "\<not> startup_shutdown (heap w a)"
    and "\<not> not_used (heap w a)" and "\<not> is_dead (heap w a)"
    and "referenced (heap w a) = None"
    and "ref_lang (config (heap w a)) = Some name" and "filetypes_lookup_by_name ed name = None"
    and "EMPTY (map_option g_strstrip (cmd (config (heap w a))))"
  shows "fst (server_get_or_start_for_ft ed spawn_ok (Some ft) True w) = None
     \<and> not_used (heap (snd (server_get_or_start_for_ft ed spawn_ok (Some ft) True w)) a)
     \<and> effects (snd (server_get_or_start_for_ft ed spawn_ok (Some ft) True w)) = effects w
     \<and> server_get_or_start_for_ft ed spawn_ok' (Some ft) launch'
           (snd (server_get_or_start_for_ft ed spawn_ok (Some ft) True w))
         = (None, snd (server_get_or_start_for_ft ed spawn_ok (Some ft) True w))
     \<and> server_get_configured_for_ft ed ft w = None"
  using assms
  by (simp add: server_get_or_start_for_ft_def server_get_configured_for_ft_def Let_def
      set_server_def)

lemmas run_defs =
  lsp_server_get_for_ft_def server_get_or_start_for_ft_def Let_def
  start_lsp_server_def perform_initialize_def lsp_server_new_def set_server_def emit_def
  is_dead_def word_sless_alt fresh_world_def example_editor_def example_config_def
  g_strstrip_def is_space_def EMPTY_def

text \<open>
  Where the code does what the specification describes, for an aliased server \<open>a\<close>
  whose target \<open>b\<close> is not an alias itself. When \<open>b\<close> has a process and \<open>a\<close> refers to
  nothing yet, a resolution that may launch returns \<open>b\<close> and records it as the reference
  of \<open>a\<close>, changing nothing else. Once recorded, a resolution returns \<open>b\<close> exactly when
  \<open>b\<close> is not in its handshake. A resolution returns \<open>b\<close> or nothing. Whatever sequence
  of resolutions is made, \<open>a\<close> stays aliased, has no process, and no spawn is made for it.
  When the reference language is unknown and \<open>a\<close> has no command, the resolution marks
  \<open>a\<close> as unused, spawns nothing, and \<open>a\<close> is unusable afterwards.
\<close>

lemma alias_resolution:
  "(aliased ed ft a b w \<longrightarrow>
      (referenced (heap w a) = None \<and> process (heap w b) \<noteq> None
         \<and> \<not> lsp_disabled_for_project ed \<longrightarrow>
       server_get_or_start_for_ft ed spawn_ok (Some ft) True w
         = (Some b, set_server a ((heap w a)\<lparr>referenced := Some b\<rparr>) w))
    \<and> (referenced (heap w a) = Some b \<and> process (heap w b) \<noteq> None
         \<and> \<not> lsp_disabled_for_project ed \<longrightarrow>
       server_get_or_start_for_ft ed spawn_ok (Some ft) launch w
         = (if startup_shutdown (heap w b) then None else Some b, w))
    \<and> (fst (server_get_or_start_for_ft ed spawn_ok (Some ft) launch w) = None
        \<or> fst (server_get_or_start_for_ft ed spawn_ok (Some ft) launch w) = Some b)
    \<and> aliased ed ft a b (foldl (\<lambda>w' call. resolve ed ft call w') w calls)
    \<and> process (heap (foldl (\<lambda>w' call. resolve ed ft call w') w calls) a) = None
    \<and> filter (spawn_of a) (effects (foldl (\<lambda>w' call. resolve ed ft call w') w calls))
        = filter (spawn_of a) (effects w))
   \<and> (lsp_servers w = Some servers \<and> ft < length servers \<and> servers ! ft = a
       \<and> \<not> lsp_disabled_for_project ed
       \<and> process (heap w a) = None \<and> \<not> startup_shutdown (heap w a)
       \<and> \<not> not_used (heap w a) \<and> \<not> is_dead (heap w a)
       \<and> referenced (heap w a) = None
       \<and> ref_lang (config (heap w a)) = Some name \<and> filetypes_lookup_by_name ed name = None
       \<and> EMPTY (map_option g_strstrip (cmd (config (heap w a)))) \<longrightarrow>
       fst (server_get_or_start_for_ft ed spawn_ok (Some ft) True w) = None
     \<and> not_used (heap (snd (server_get_or_start_for_ft ed spawn_ok (Some ft) True w)) a)
     \<and> effects (snd (server_get_or_start_for_ft ed spawn_ok (Some ft) True w)) = effects w
     \<and> server_get_or_start_for_ft ed spawn_ok' (Some ft) launch'
           (snd (server_get_or_start_for_ft ed spawn_ok (Some ft) True w))
         = (None, snd (server_get_or_start_for_ft ed spawn_ok (Some ft) True w))
     \<and> server_get_configured_for_ft ed ft w = None)"
proof -
  have known: "aliased ed ft a b w \<longrightarrow>
      (referenced (heap w a) = None \<and> process (heap w b) \<noteq> None
         \<and> \<not> lsp_disabled_for_project ed \<longrightarrow>
       server_get_or_start_for_ft ed spawn_ok (Some ft) True w
         = (Some b, set_server a ((heap w a)\<lparr>referenced := Some b\<rparr>) w))
    \<and> (referenced (heap w a) = Some b \<and> process (heap w b) \<noteq> None
         \<and> \<not> lsp_disabled_for_project ed \<longrightarrow>
       server_get_or_start_for_ft ed spawn_ok (Some ft) launch w
         = (if startup_shutdown (heap w b) then None else Some b, w))
    \<and> (fst (server_get_or_start_for_ft ed spawn_ok (Some ft) launch w) = None
        \<or> fst (server_get_or_start_for_ft ed spawn_ok (Some ft) launch w) = Some b)
    \<and> aliased ed ft a b (foldl (\<lambda>w' call. resolve ed ft call w') w calls)
    \<and> process (heap (foldl (\<lambda>w' call. resolve ed ft call w') w calls) a) = None
    \<and> filter (spawn_of a) (effects (foldl (\<lambda>w' call. resolve ed ft call w') w calls))
        = filter (spawn_of a) (effects w)"
  proof
    assume al: "aliased ed ft a b w"
    have inv: "aliased ed ft a b (foldl (\<lambda>w' call. resolve ed ft call w') w calls)"
      "filter (spawn_of a) (effects (foldl (\<lambda>w' call. resolve ed ft call w') w calls))
        = filter (spawn_of a) (effects w)"
      using aliased_resolve [OF al, of calls] by simp_all
    have "process (heap (foldl (\<lambda>w' call. resolve ed ft call w') w calls) a) = None"
      using inv(1) by (auto simp: aliased_def split: option.splits)
    with inv aliased_first [OF al, of spawn_ok] aliased_cached [OF al, of spawn_ok launch]
      aliased_step [OF al, of spawn_ok launch]
    show "(referenced (heap w a) = None \<and> process (heap w b) \<noteq> None
         \<and> \<not> lsp_disabled_for_project ed \<longrightarrow>
       server_get_or_start_for_ft ed spawn_ok (Some ft) True w
         = (Some b, set_server a ((heap w a)\<lparr>referenced := Some b\<rparr>) w))
    \<and> (referenced (heap w a) = Some b \<and> process (heap w b) \<noteq> None
         \<and> \<not> lsp_disabled_for_project ed \<longrightarrow>
       server_get_or_start_for_ft ed spawn_ok (Some ft) launch w
         = (if startup_shutdown (heap w b) then None else Some b, w))
    \<and> (fst (server_get_or_start_for_ft ed spawn_ok (Some ft) launch w) = None
        \<or> fst (server_get_or_start_for_ft ed spawn_ok (Some ft) launch w) = Some b)
    \<and> aliased ed ft a b (foldl (\<lambda>w' call. resolve ed ft call w') w calls)
    \<and> process (heap (foldl (\<lambda>w' call. resolve ed ft call w') w calls) a) = None
    \<and> filter (spawn_of a) (effects (foldl (\<lambda>w' call. resolve ed ft call w') w calls))
        = filter (spawn_of a) (effects w)"
      by simp
  qed
  have unknown: "lsp_servers w = Some servers \<and> ft < length servers \<and> servers ! ft = a
       \<and> \<not> lsp_disabled_for_project ed
       \<and> process (heap w a) = None \<and> \<not> startup_shutdown (heap w a)
       \<and> \<not> not_used (heap w a) \<and> \<not> is_dead (heap w a)
       \<and> referenced (heap w a) = None
       \<and> ref_lang (config (heap w a)) = Some name \<and> filetypes_lookup_by_name ed name = None
       \<and> EMPTY (map_option g_strstrip (cmd (config (heap w a)))) \<longrightarrow>
       fst (server_get_or_start_for_ft ed spawn_ok (Some ft) True w) = None
     \<and> not_used (heap (snd (server_get_or_start_for_ft ed spawn_ok (Some ft) True w)) a)
     \<and> effects (snd (server_get_or_start_for_ft ed spawn_ok (Some ft) True w)) = effects w
     \<and> server_get_or_start_for_ft ed spawn_ok' (Some ft) launch'
           (snd (server_get_or_start_for_ft ed spawn_ok (Some ft) True w))
         = (None, snd (server_get_or_start_for_ft ed spawn_ok (Some ft) True w))
     \<and> server_get_configured_for_ft ed ft w = None"
    using unknown_alias_not_used [where w = w and servers = servers and ft = ft and a = a
        and ed = ed and name = name and spawn_ok = spawn_ok and spawn_ok' = spawn_ok'
        and launch' = launch']
    by blast
  from known unknown show ?thesis by (rule conjI)
qed


lemma alias_ready_facts:
  "lsp_servers alias_ready_world = Some [0, 1]"
  "heap alias_ready_world 0 = lsp_server_new alias_editor 0"
  "process (heap alias_ready_world 1) = Some 0"
  "\<not> startup_shutdown (heap alias_ready_world 1)"
  "ref_lang (config (heap alias_ready_world 1)) = None"
  "effects alias_ready_world
     = [Spawn 1 True, WaitAsync 0 1, Call 1 ''initialize'', Notify 1 ''initialized'' None]"
  by (simp_all add: alias_ready_world_def initialize_cb_def alias_world_def alias_editor_def
      alias_config_def run_defs)

lemma alias_ready_aliased: "aliased alias_editor 0 0 1 alias_ready_world"
  using alias_ready_facts
  by (simp add: aliased_def lsp_server_new_def alias_editor_def alias_config_def
      example_editor_def example_config_def is_dead_def word_sless_alt)

text \<open>
  The same on the two file types with the target ready, and on the file type whose
  reference language is unknown and that has no command.
\<close>

lemma alias_resolution_example:
  "aliased alias_editor 0 0 1 alias_ready_world
   \<and> referenced (heap alias_ready_world 0) = None
   \<and> process (heap alias_ready_world 1) = Some 0
   \<and> lsp_disabled_for_project alias_editor = False
   \<and> fst (lsp_server_get_for_ft alias_editor True (Some 0) alias_ready_world) = Some 1
   \<and> referenced (heap (snd (lsp_server_get_for_ft alias_editor True (Some 0) alias_ready_world)) 0)
       = Some 1
   \<and> effects (snd (lsp_server_get_for_ft alias_editor True (Some 0) alias_ready_world))
       = effects alias_ready_world
   \<and> process (heap (foldl (\<lambda>w' call. resolve alias_editor 0 call w') alias_ready_world
                       [(True, True), (True, False), (False, True)]) 0) = None
   \<and> filter (spawn_of 0)
        (effects (foldl (\<lambda>w' call. resolve alias_editor 0 call w') alias_ready_world
                    [(True, True), (True, False), (False, True)])) = []
   \<and> lsp_servers (unknown_alias_world None) = Some [0]
   \<and> ref_lang (config (heap (unknown_alias_world None) 0)) = Some ''nolang''
   \<and> filetypes_lookup_by_name (unknown_alias_editor None) ''nolang'' = None
   \<and> EMPTY (map_option g_strstrip (cmd (config (heap (unknown_alias_world None) 0))))
   \<and> fst (server_get_or_start_for_ft (unknown_alias_editor None) True (Some 0) True
            (unknown_alias_world None)) = None
   \<and> not_used (heap (snd (server_get_or_start_for_ft (unknown_alias_editor None) True (Some 0)
                             True (unknown_alias_world None))) 0)
   \<and> effects (snd (server_get_or_start_for_ft (unknown_alias_editor None) True (Some 0)
                      True (unknown_alias_world None))) = []"
proof -
  have r: "referenced (heap alias_ready_world 0) = None"
    "lsp_disabled_for_project alias_editor = False"
    using alias_ready_facts by (simp_all add: lsp_server_new_def alias_editor_def example_editor_def)
  have u: "lsp_servers (unknown_alias_world None) = Some [0]"
    "ref_lang (config (heap (unknown_alias_world None) 0)) = Some ''nolang''"
    "filetypes_lookup_by_name (unknown_alias_editor None) ''nolang'' = None"
    "EMPTY (map_option g_strstrip (cmd (config (heap (unknown_alias_world None) 0))))"
    "\<not> lsp_disabled_for_project (unknown_alias_editor None)"
    "process (heap (unknown_alias_world None) 0) = None"
    "\<not> startup_shutdown (heap (unknown_alias_world None) 0)"
    "\<not> not_used (heap (unknown_alias_world None) 0)"
    "\<not> is_dead (heap (unknown_alias_world None) 0)"
    "referenced (heap (unknown_alias_world None) 0) = None"
    "effects (unknown_alias_world None) = []"
    by (simp_all add: unknown_alias_world_def unknown_alias_editor_def run_defs)
  show ?thesis
    using alias_ready_aliased r u alias_ready_facts
      alias_resolution [where ed = alias_editor and ft = 0 and a = 0 and b = 1
        and w = alias_ready_world and spawn_ok = True and launch = True
        and calls = "[(True, True), (True, False), (False, True)]"]
      alias_resolution [where ed = "unknown_alias_editor None" and ft = 0 and a = 0
        and w = "unknown_alias_world None" and servers = "[0]" and name = "''nolang''"
        and spawn_ok = True]
    by (simp add: lsp_server_get_for_ft_def)
qed

lemma chain_ready_facts:
  "lsp_servers chain_ready_world = Some [0, 1, 2]"
  "heap chain_ready_world 0 = lsp_server_new chain_editor 0"
  "heap chain_ready_world 1 = lsp_server_new chain_editor 1"
  "process (heap chain_ready_world 2) = Some 0"
  "\<not> startup_shutdown (heap chain_ready_world 2)"
  by (simp_all add: chain_ready_world_def initialize_cb_def chain_world_def chain_editor_def
      run_defs)

text \<open>
  Claim C9 says that an alias whose reference language is unknown is unusable, that an
  aliasing server never spawns a process of its own, and that resolution goes one hop.
  In the first run the \<^verbatim>\<open>use\<close> setting of file type 0 names no file type and the
  server has a command: \<^verbatim>\<open>server_get_or_start_for_ft\<close> spawns it and, once it is
  initialized, returns it, while \<^verbatim>\<open>server_get_configured_for_ft\<close> answers NULL for
  the same file type before and after. In the second run file type 0 refers to \<^verbatim>\<open>b\<close>,
  file type 1 (\<^verbatim>\<open>b\<close>) has a command and refers to \<^verbatim>\<open>c\<close>, and the server of \<^verbatim>\<open>c\<close>
  is ready: the first resolution of file type 0 tries to spawn the server of \<^verbatim>\<open>b\<close>
  itself (the spawn fails), and the second returns the server of \<^verbatim>\<open>c\<close>, two hops
  away.
\<close>

theorem alias_spawns_own_process:
  "(let ed = unknown_alias_editor (Some ''srv'');
        w1 = snd (lsp_server_get_for_ft ed True (Some 0) (unknown_alias_world (Some ''srv'')));
        w2 = initialize_cb ed True example_response False 0 w1
    in ref_lang (config (heap (unknown_alias_world (Some ''srv'')) 0)) = Some ''nolang''
     \<and> filetypes_lookup_by_name ed ''nolang'' = None
     \<and> server_get_configured_for_ft ed 0 (unknown_alias_world (Some ''srv'')) = None
     \<and> effects w1 = [Spawn 0 True, WaitAsync 0 0, Call 0 ''initialize'']
     \<and> process (heap w1 0) = Some 0
     \<and> \<not> not_used (heap w1 0)
     \<and> lsp_server_get_for_ft ed True (Some 0) w2 = (Some 0, w2)
     \<and> server_get_configured_for_ft ed 0 w2 = None)
   \<and> (let w1 = snd (lsp_server_get_for_ft chain_editor False (Some 0) chain_ready_world)
       in ref_lang (config (heap chain_ready_world 0)) = Some ''b''
        \<and> ref_lang (config (heap chain_ready_world 1)) = Some ''c''
        \<and> process (heap chain_ready_world 2) = Some 0
        \<and> effects w1 = effects chain_ready_world @ [Spawn 1 False]
        \<and> referenced (heap w1 0) = Some 1
        \<and> fst (lsp_server_get_for_ft chain_editor True (Some 0) w1) = Some 2)"
proof -
  have one: "(let ed = unknown_alias_editor (Some ''srv'');
        w1 = snd (lsp_server_get_for_ft ed True (Some 0) (unknown_alias_world (Some ''srv'')));
        w2 = initialize_cb ed True example_response False 0 w1
    in ref_lang (config (heap (unknown_alias_world (Some ''srv'')) 0)) = Some ''nolang''
     \<and> filetypes_lookup_by_name ed ''nolang'' = None
     \<and> server_get_configured_for_ft ed 0 (unknown_alias_world (Some ''srv'')) = None
     \<and> effects w1 = [Spawn 0 True, WaitAsync 0 0, Call 0 ''initialize'']
     \<and> process (heap w1 0) = Some 0
     \<and> \<not> not_used (heap w1 0)
     \<and> lsp_server_get_for_ft ed True (Some 0) w2 = (Some 0, w2)
     \<and> server_get_configured_for_ft ed 0 w2 = None)"
  proof -
    define ed where "ed = unknown_alias_editor (Some ''srv'')"
    define w1 where "w1 = snd (lsp_server_get_for_ft ed True (Some 0) (unknown_alias_world (Some ''srv'')))"
    define w2 where "w2 = initialize_cb ed True example_response False 0 w1"
    have e: "filetypes_lookup_by_name ed ''nolang'' = None" "\<not> lsp_disabled_for_project ed"
      "documents ed = []"
      by (simp_all add: ed_def unknown_alias_editor_def example_editor_def)
    have f0: "ref_lang (config (heap (unknown_alias_world (Some ''srv'')) 0)) = Some ''nolang''"
      "server_get_configured_for_ft ed 0 (unknown_alias_world (Some ''srv'')) = None"
      by (simp_all add: ed_def server_get_configured_for_ft_def unknown_alias_world_def
          unknown_alias_editor_def run_defs)
    have f1: "effects w1 = [Spawn 0 True, WaitAsync 0 0, Call 0 ''initialize'']"
      "process (heap w1 0) = Some 0" "\<not> not_used (heap w1 0)" "lsp_servers w1 = Some [0]"
      "referenced (heap w1 0) = None" "ref_lang (config (heap w1 0)) = Some ''nolang''"
      by (simp_all add: w1_def ed_def unknown_alias_world_def unknown_alias_editor_def run_defs)
    have f2: "lsp_servers w2 = Some [0]" "process (heap w2 0) = Some 0"
      "\<not> startup_shutdown (heap w2 0)" "referenced (heap w2 0) = None"
      "ref_lang (config (heap w2 0)) = Some ''nolang''"
      using f1 e by (simp_all add: w2_def initialize_cb_def Let_def set_server_def emit_def)
    have g: "lsp_server_get_for_ft ed True (Some 0) w2 = (Some 0, w2)"
      using f2 e by (simp add: lsp_server_get_for_ft_def server_get_or_start_for_ft_def Let_def)
    have h: "server_get_configured_for_ft ed 0 w2 = None"
      using f2 e by (simp add: server_get_configured_for_ft_def Let_def)
    show ?thesis
      using e f0 f1 g h
      unfolding Let_def ed_def [symmetric] w1_def [symmetric] w2_def [symmetric]
      by simp
  qed
  have two: "(let w1 = snd (lsp_server_get_for_ft chain_editor False (Some 0) chain_ready_world)
       in ref_lang (config (heap chain_ready_world 0)) = Some ''b''
        \<and> ref_lang (config (heap chain_ready_world 1)) = Some ''c''
        \<and> process (heap chain_ready_world 2) = Some 0
        \<and> effects w1 = effects chain_ready_world @ [Spawn 1 False]
        \<and> referenced (heap w1 0) = Some 1
        \<and> fst (lsp_server_get_for_ft chain_editor True (Some 0) w1) = Some 2)"
  proof -
    define w1 where "w1 = snd (lsp_server_get_for_ft chain_editor False (Some 0) chain_ready_world)"
    have e: "filetypes_lookup_by_name chain_editor ''b'' = Some 1"
      "filetypes_lookup_by_name chain_editor ''c'' = Some 2"
      "\<not> lsp_disabled_for_project chain_editor"
      by (simp_all add: chain_editor_def example_editor_def)
    have c: "ref_lang (config (heap chain_ready_world 0)) = Some ''b''"
      "ref_lang (config (heap chain_ready_world 1)) = Some ''c''"
      using chain_ready_facts
      by (simp_all add: lsp_server_new_def chain_editor_def example_editor_def example_config_def)
    have f1: "effects w1 = effects chain_ready_world @ [Spawn 1 False]"
      "referenced (heap w1 0) = Some 1" "lsp_servers w1 = Some [0, 1, 2]"
      "process (heap w1 1) = None" "\<not> startup_shutdown (heap w1 1)" "\<not> not_used (heap w1 1)"
      "\<not> is_dead (heap w1 1)" "ref_lang (config (heap w1 1)) = Some ''c''"
      "process (heap w1 2) = Some 0"
      unfolding w1_def using chain_ready_facts e
      by (simp_all add: lsp_server_get_for_ft_def server_get_or_start_for_ft_def Let_def
          start_lsp_server_def lsp_server_new_def set_server_def emit_def is_dead_def
          word_sless_alt chain_editor_def example_editor_def example_config_def
          g_strstrip_def is_space_def EMPTY_def)
    have "fst (lsp_server_get_for_ft chain_editor True (Some 0) w1) = Some 2"
      using f1 e
      by (simp add: lsp_server_get_for_ft_def server_get_or_start_for_ft_def Let_def set_server_def)
    with c f1 chain_ready_facts show ?thesis
      unfolding Let_def w1_def [symmetric] by simp
  qed
  from one two show ?thesis by (rule conjI)
qed

end
